theory Spec2Isabelle
  imports Complex_Main
begin

section \<open>JavaScript numbers\<close>

text \<open>
  A JavaScript \<^verbatim>\<open>number\<close> is a double: finite, one of the two infinities, or NaN.
  The guards of the program (\<^verbatim>\<open>Number.isFinite\<close>, \<^verbatim>\<open>Number.isNaN\<close>) and its
  comparisons distinguish exactly these cases. A finite double is represented by the
  real number it denotes. The type is wider than the doubles (not every real is one), so
  nothing below assumes that a value \<open>Fin x\<close> was not rounded: every arithmetic
  operation rounds its exact result through the rounding of the host (section
  \<open>Host environment\<close>), which can also overflow to an infinity. The sign of zero is
  not represented.
\<close>

datatype number = Fin real | PosInf | NegInf | NaN

fun isFinite :: "number \<Rightarrow> bool" where
  "isFinite (Fin x) = True"
| "isFinite PosInf = False"
| "isFinite NegInf = False"
| "isFinite NaN = False"

fun isNaN :: "number \<Rightarrow> bool" where
  "isNaN NaN = True"
| "isNaN (Fin x) = False"
| "isNaN PosInf = False"
| "isNaN NegInf = False"

text \<open>Unary minus is exact.\<close>

fun neg :: "number \<Rightarrow> number" where
  "neg (Fin x) = Fin (- x)"
| "neg PosInf = NegInf"
| "neg NegInf = PosInf"
| "neg NaN = NaN"

text \<open>The sign of a number as \<open>-1\<close>, \<open>0\<close> or \<open>1\<close>; \<open>0\<close> for NaN.\<close>

fun signum :: "number \<Rightarrow> int" where
  "signum (Fin x) = (if x < 0 then - 1 else if x = 0 then 0 else 1)"
| "signum PosInf = 1"
| "signum NegInf = - 1"
| "signum NaN = 0"

text \<open>\<^verbatim>\<open>a < b\<close>: false as soon as one side is NaN.\<close>

fun lt :: "number \<Rightarrow> number \<Rightarrow> bool" where
  "lt NaN b = False"
| "lt a NaN = False"
| "lt (Fin x) (Fin y) = (x < y)"
| "lt PosInf b = False"
| "lt a PosInf = True"
| "lt NegInf b = (b \<noteq> NegInf)"
| "lt a NegInf = False"

text \<open>\<^verbatim>\<open>a > b\<close>, \<^verbatim>\<open>a <= b\<close> and \<^verbatim>\<open>a >= b\<close>.\<close>

definition gt :: "number \<Rightarrow> number \<Rightarrow> bool" where
  "gt a b = lt b a"

definition le :: "number \<Rightarrow> number \<Rightarrow> bool" where
  "le a b = (\<not> isNaN a \<and> \<not> isNaN b \<and> \<not> lt b a)"

definition ge :: "number \<Rightarrow> number \<Rightarrow> bool" where
  "ge a b = le b a"

text \<open>
  \<^verbatim>\<open>Math.round\<close>: the nearest integer, halves rounded towards \<^verbatim>\<open>+Infinity\<close>. The
  result is exact: the integer next to a double is a double.
\<close>

fun Math_round :: "number \<Rightarrow> number" where
  "Math_round (Fin x) = Fin (of_int \<lfloor>x + 1 / 2\<rfloor>)"
| "Math_round a = a"

section \<open>JavaScript strings\<close>

text \<open>
  A string is a list of characters; a character stands for a UTF-16 code unit below 256
  (ASCII and Latin-1). On that range the three string methods the program calls are
  modelled completely.
\<close>

text \<open>The white space that \<^verbatim>\<open>trim\<close> removes: TAB, LF, VT, FF, CR, SPACE and NBSP.\<close>

definition isWhiteSpace :: "char \<Rightarrow> bool" where
  "isWhiteSpace c = ((of_char c :: nat) \<in> {9, 10, 11, 12, 13, 32, 160})"

text \<open>\<^verbatim>\<open>String.prototype.trim\<close>.\<close>

definition trim :: "string \<Rightarrow> string" where
  "trim s = rev (dropWhile isWhiteSpace (rev (dropWhile isWhiteSpace s)))"

text \<open>
  \<^verbatim>\<open>String.prototype.toLowerCase\<close>: the upper-case letters below 256 are A to Z and
  the Latin-1 letters 192 to 222 without the multiplication sign 215; each has its
  lower-case form 32 places later.
\<close>

definition toLowerChar :: "char \<Rightarrow> char" where
  "toLowerChar c =
     (let n = (of_char c :: nat)
      in if (65 \<le> n \<and> n \<le> 90) \<or> (192 \<le> n \<and> n \<le> 222 \<and> n \<noteq> 215)
         then char_of (n + 32) else c)"

definition toLowerCase :: "string \<Rightarrow> string" where
  "toLowerCase s = map toLowerChar s"

fun startsWith :: "string \<Rightarrow> string \<Rightarrow> bool" where
  "startsWith s [] = True"
| "startsWith [] (c # cs) = False"
| "startsWith (d # ds) (c # cs) = (d = c \<and> startsWith ds cs)"

text \<open>\<^verbatim>\<open>s.includes(t)\<close>: \<open>t\<close> occurs in \<open>s\<close> as a contiguous run.\<close>

fun includes_str :: "string \<Rightarrow> string \<Rightarrow> bool" where
  "includes_str [] t = (t = [])"
| "includes_str (c # cs) t = (startsWith (c # cs) t \<or> includes_str cs t)"

section \<open>Data model\<close>

datatype TradeDirection = Long | Short

record Trade =
  trade_id :: string
  pair :: string
  direction :: TradeDirection
  strategy :: string
  entryPrice :: number
  exitPrice :: number
  pnl :: number
  date :: string
  sentiment :: string
  positionSize :: number

record TradeFormData =
  form_pair :: string
  form_direction :: TradeDirection
  form_strategy :: string
  form_entryPrice :: string
  form_exitPrice :: string
  form_positionSize :: string
  form_date :: string
  form_sentiment :: string

datatype DirectionFilter = Only TradeDirection | All

record TradeFilters =
  filter_pair :: string
  filter_direction :: DirectionFilter
  filter_strategy :: string
  startDate :: string
  endDate :: string

datatype SortKey = DateDesc | DateAsc | PnlDesc | PnlAsc | SizeDesc | SizeAsc

text \<open>A stored numeric field, of type \<^verbatim>\<open>string | number | null\<close>.\<close>

datatype raw_numeric = RawNumber number | RawString string | RawNull

record TradeRow =
  row_id :: string
  row_pair :: string
  row_direction :: TradeDirection
  row_strategy :: string
  entry_price :: raw_numeric
  exit_price :: raw_numeric
  row_pnl :: raw_numeric
  position_size :: raw_numeric
  row_sentiment :: "string option"
  trade_date :: string

section \<open>Host environment\<close>

text \<open>
  What comes from the JavaScript host is a parameter of the model:
  \<^item> \<open>parseFloat\<close>, the global function of that name (its result is any number: NaN
    when no prefix of the text is a decimal literal, an infinity for the text
    \<^verbatim>\<open>Infinity\<close> or a literal too large);
  \<^item> \<open>getTime\<close>, which stands for \<^verbatim>\<open>new Date(value).getTime()\<close>: the time value of a
    date text, NaN when the text is no date (which texts are dates is implementation
    defined outside the ISO format);
  \<^item> \<open>today\<close> and \<open>now\<close>, the clock readings
    \<^verbatim>\<open>new Date().toISOString().slice(0, 10)\<close> and \<^verbatim>\<open>Date.now().toString()\<close>;
  \<^item> \<open>fl\<close>, the rounding of binary64 arithmetic: the double nearest to the exact
    result of an operation, or an infinity when that result is too large;
  \<^item> \<open>engineSort\<close>, what \<^verbatim>\<open>Array.prototype.sort\<close> of the engine returns when the
    comparison function is not consistent, a case in which the language leaves the order
    to the implementation.
\<close>

record host =
  parseFloat :: "string \<Rightarrow> number"
  getTime :: "string \<Rightarrow> number"
  today :: string
  now :: string
  fl :: "real \<Rightarrow> number"
  engineSort :: "(Trade \<Rightarrow> Trade \<Rightarrow> number) \<Rightarrow> Trade list \<Rightarrow> Trade list"

section \<open>Arithmetic\<close>

text \<open>
  \<^verbatim>\<open>a + b\<close>: the exact sum of two finite numbers, rounded; opposite infinities cancel to
  NaN, NaN is absorbing.
\<close>

fun add :: "host \<Rightarrow> number \<Rightarrow> number \<Rightarrow> number" where
  "add H (Fin x) (Fin y) = fl H (x + y)"
| "add H NaN b = NaN"
| "add H a NaN = NaN"
| "add H PosInf NegInf = NaN"
| "add H NegInf PosInf = NaN"
| "add H PosInf b = PosInf"
| "add H NegInf b = NegInf"
| "add H a PosInf = PosInf"
| "add H a NegInf = NegInf"

text \<open>\<^verbatim>\<open>a - b\<close> is \<^verbatim>\<open>a + (-b)\<close>.\<close>

definition sub :: "host \<Rightarrow> number \<Rightarrow> number \<Rightarrow> number" where
  "sub H a b = add H a (neg b)"

text \<open>
  \<^verbatim>\<open>a * b\<close>: the exact product of two finite numbers, rounded; an infinity times zero is
  NaN, otherwise the signs multiply.
\<close>

fun mul :: "host \<Rightarrow> number \<Rightarrow> number \<Rightarrow> number" where
  "mul H (Fin x) (Fin y) = fl H (x * y)"
| "mul H NaN b = NaN"
| "mul H a NaN = NaN"
| "mul H a b =
     (if signum a * signum b = 0 then NaN
      else if signum a * signum b > 0 then PosInf else NegInf)"

text \<open>
  \<^verbatim>\<open>a / b\<close>: the exact quotient of two finite numbers, rounded. A zero divisor is taken
  as \<^verbatim>\<open>+0\<close>; the program divides only by a positive count.
\<close>

fun divide_num :: "host \<Rightarrow> number \<Rightarrow> number \<Rightarrow> number" where
  "divide_num H NaN b = NaN"
| "divide_num H a NaN = NaN"
| "divide_num H (Fin x) (Fin y) =
     (if y = 0 then (if x = 0 then NaN else if x > 0 then PosInf else NegInf)
      else fl H (x / y))"
| "divide_num H (Fin x) b = Fin 0"
| "divide_num H a (Fin y) =
     (if signum a * (if y < 0 then - 1 else 1) > 0 then PosInf else NegInf)"
| "divide_num H a b = NaN"

text \<open>
  A proper number for a host is one the program can hold: not NaN, and when finite a
  double, that is a real that the rounding leaves as it is.
\<close>

fun properNumber :: "host \<Rightarrow> number \<Rightarrow> bool" where
  "properNumber H (Fin x) = (fl H x = Fin x)"
| "properNumber H PosInf = True"
| "properNumber H NegInf = True"
| "properNumber H NaN = False"

text \<open>
  Facts of binary64 arithmetic and of \<^verbatim>\<open>parseFloat\<close> that some statements below take
  as a hypothesis on the host; each holds of every JavaScript engine. Rounding never
  gives NaN; a rounded result is a double; the integers up to \<open>2^53\<close> are doubles; a
  real up to \<open>2^53\<close> does not overflow; rounding does not change the side of zero a
  real is on; two different doubles have a difference that does not round to zero
  (gradual underflow); \<^verbatim>\<open>parseFloat\<close> returns NaN, an infinity or a double; and the
  sort of the engine returns the elements it was given.
\<close>

definition ieeeHost :: "host \<Rightarrow> bool" where
  "ieeeHost H =
     ((\<forall>x. \<not> isNaN (fl H x)) \<and>
      (\<forall>x y. fl H x = Fin y \<longrightarrow> fl H y = Fin y) \<and>
      (\<forall>n::int. \<bar>n\<bar> \<le> 2 ^ 53 \<longrightarrow> fl H (real_of_int n) = Fin (real_of_int n)) \<and>
      (\<forall>x. \<bar>x\<bar> \<le> 2 ^ 53 \<longrightarrow> isFinite (fl H x)) \<and>
      (\<forall>x. 0 \<le> x \<longrightarrow> \<not> lt (fl H x) (Fin 0)) \<and>
      (\<forall>x. x \<le> 0 \<longrightarrow> \<not> lt (Fin 0) (fl H x)) \<and>
      (\<forall>x y. fl H x = Fin x \<and> fl H y = Fin y \<and> x \<noteq> y \<longrightarrow> fl H (x - y) \<noteq> Fin 0) \<and>
      (\<forall>s. isNaN (parseFloat H s) \<or> properNumber H (parseFloat H s)) \<and>
      (\<forall>cmp xs. set (engineSort H cmp xs) = set xs))"

section \<open>Trade record normalizer\<close>

fun parseNumericField :: "host \<Rightarrow> raw_numeric \<Rightarrow> number" where
  "parseNumericField H (RawNumber v) = v"
| "parseNumericField H (RawString s) =
     (let parsed = parseFloat H s in if isFinite parsed then parsed else Fin 0)"
| "parseNumericField H RawNull = Fin 0"

definition mapRowToTrade :: "host \<Rightarrow> TradeRow \<Rightarrow> Trade" where
  "mapRowToTrade H row =
     \<lparr> trade_id = row_id row,
       pair = row_pair row,
       direction = row_direction row,
       strategy = row_strategy row,
       entryPrice = parseNumericField H (entry_price row),
       exitPrice = parseNumericField H (exit_price row),
       pnl = parseNumericField H (row_pnl row),
       date = trade_date row,
       sentiment = (case row_sentiment row of None \<Rightarrow> [] | Some s \<Rightarrow> s),
       positionSize = parseNumericField H (position_size row) \<rparr>"

definition createDefaultFilters :: TradeFilters where
  "createDefaultFilters =
     \<lparr> filter_pair = [], filter_direction = All, filter_strategy = [],
       startDate = [], endDate = [] \<rparr>"

section \<open>Sorting\<close>

text \<open>
  \<^verbatim>\<open>Array.prototype.sort\<close> with a comparison function. The engine compares two elements
  through \<open>sortCompare\<close>: the result of the comparison function, with NaN taken as
  zero; only its sign matters. The sort is stable, and when \<open>sortCompare\<close> is a
  consistent comparator for the elements (the conditions of the language standard:
  equality under it is reflexive, symmetric and transitive, and below and above are
  transitive) the result is the one list that is sorted and stable, computed here by
  stable insertion: an element moves behind exactly the elements it compares greater
  than. When \<open>sortCompare\<close> is not consistent the order is implementation-defined, and
  the result is what the engine of the host returns.
\<close>

definition sortCompare :: "('a \<Rightarrow> 'a \<Rightarrow> number) \<Rightarrow> 'a \<Rightarrow> 'a \<Rightarrow> int" where
  "sortCompare cmp x y = signum (cmp x y)"

definition consistentComparator :: "('a \<Rightarrow> 'a \<Rightarrow> number) \<Rightarrow> 'a list \<Rightarrow> bool" where
  "consistentComparator cmp xs =
     (\<forall>a\<in>set xs. \<forall>b\<in>set xs. \<forall>c\<in>set xs.
        sortCompare cmp a a = 0 \<and>
        (sortCompare cmp a b = 0 \<longrightarrow> sortCompare cmp b a = 0) \<and>
        (sortCompare cmp a b = 0 \<and> sortCompare cmp b c = 0 \<longrightarrow> sortCompare cmp a c = 0) \<and>
        (sortCompare cmp a b < 0 \<and> sortCompare cmp b c < 0 \<longrightarrow> sortCompare cmp a c < 0) \<and>
        (sortCompare cmp a b > 0 \<and> sortCompare cmp b c > 0 \<longrightarrow> sortCompare cmp a c > 0))"

fun insertSorted :: "('a \<Rightarrow> 'a \<Rightarrow> number) \<Rightarrow> 'a \<Rightarrow> 'a list \<Rightarrow> 'a list" where
  "insertSorted cmp x [] = [x]"
| "insertSorted cmp x (y # ys) =
     (if sortCompare cmp x y > 0 then y # insertSorted cmp x ys else x # y # ys)"

definition array_sort ::
  "(('a \<Rightarrow> 'a \<Rightarrow> number) \<Rightarrow> 'a list \<Rightarrow> 'a list) \<Rightarrow>
   ('a \<Rightarrow> 'a \<Rightarrow> number) \<Rightarrow> 'a list \<Rightarrow> 'a list" where
  "array_sort engine cmp xs =
     (if consistentComparator cmp xs then foldr (insertSorted cmp) xs []
      else engine cmp xs)"

definition sortTradesByDateDesc :: "host \<Rightarrow> Trade list \<Rightarrow> Trade list" where
  "sortTradesByDateDesc H entries =
     array_sort (engineSort H)
       (\<lambda>a b. sub H (getTime H (date b)) (getTime H (date a))) entries"

section \<open>Profit and loss\<close>

text \<open>\<^verbatim>\<open>calculatePnL\<close> (the same text in both versions of the page).\<close>

definition calculatePnL ::
  "host \<Rightarrow> TradeDirection \<Rightarrow> number \<Rightarrow> number \<Rightarrow> number \<Rightarrow> number" where
  "calculatePnL H dir entry exit sz =
     (if \<not> isFinite entry \<or> \<not> isFinite exit \<or> \<not> isFinite sz then Fin 0
      else let difference = (if dir = Long then sub H exit entry else sub H entry exit)
           in mul H difference sz)"

text \<open>
  The sample trades of the first version of the page. The literals are doubles as
  written, except \<^verbatim>\<open>0.3\<close>, which denotes the double nearest to three tenths.
\<close>

definition initialTrades :: "host \<Rightarrow> Trade list" where
  "initialTrades H =
     [ \<lparr> trade_id = ''1'', pair = ''BTC / USDT'', direction = Long,
         strategy = ''Trend Break'', entryPrice = Fin 61250, exitPrice = Fin 63100,
         pnl = calculatePnL H Long (Fin 61250) (Fin 63100) (Fin (1 / 2)),
         date = ''2024-04-12'', sentiment = ''high conviction'',
         positionSize = Fin (1 / 2) \<rparr>,
       \<lparr> trade_id = ''2'', pair = ''ETH / USDT'', direction = Short,
         strategy = ''Mean Revert'', entryPrice = Fin 3120, exitPrice = Fin 3040,
         pnl = calculatePnL H Short (Fin 3120) (Fin 3040) (Fin 20),
         date = ''2024-04-10'', sentiment = ''watch gas fees'',
         positionSize = Fin 20 \<rparr>,
       \<lparr> trade_id = ''3'', pair = ''SOL / USDT'', direction = Long,
         strategy = ''Breakout'', entryPrice = Fin 142, exitPrice = Fin 136,
         pnl = calculatePnL H Long (Fin 142) (Fin 136) (Fin 30),
         date = ''2024-04-07'', sentiment = ''late entry'',
         positionSize = Fin 30 \<rparr>,
       \<lparr> trade_id = ''4'', pair = ''BTC / USDT'', direction = Short,
         strategy = ''Range Bounce'', entryPrice = Fin 59880, exitPrice = Fin 58920,
         pnl = calculatePnL H Short (Fin 59880) (Fin 58920) (fl H (3 / 10)),
         date = ''2024-04-03'', sentiment = ''double confirmation'',
         positionSize = fl H (3 / 10) \<rparr> ]"

section \<open>Filtering\<close>

text \<open>
  The callback of \<^verbatim>\<open>trades.filter\<close> in \<^verbatim>\<open>filteredTrades\<close>: five guarded
  \<^verbatim>\<open>return false\<close> statements in a row, then \<^verbatim>\<open>return true\<close>. A string used as a
  condition is true when it is not empty.
\<close>

definition tradeFilter :: "host \<Rightarrow> TradeFilters \<Rightarrow> Trade \<Rightarrow> bool" where
  "tradeFilter H filters trade =
     (if filter_pair filters \<noteq> [] \<and>
         \<not> includes_str (toLowerCase (pair trade))
              (toLowerCase (trim (filter_pair filters)))
      then False
      else if filter_strategy filters \<noteq> [] \<and>
         \<not> includes_str (toLowerCase (strategy trade))
              (toLowerCase (trim (filter_strategy filters)))
      then False
      else if filter_direction filters \<noteq> All \<and>
         Only (direction trade) \<noteq> filter_direction filters
      then False
      else if startDate filters \<noteq> [] \<and>
         (let startTime = getTime H (startDate filters)
          in \<not> isNaN startTime \<and> lt (getTime H (date trade)) startTime)
      then False
      else if endDate filters \<noteq> [] \<and>
         (let endTime = getTime H (endDate filters)
          in \<not> isNaN endTime \<and> gt (getTime H (date trade)) endTime)
      then False
      else True)"

definition filteredTrades :: "host \<Rightarrow> TradeFilters \<Rightarrow> Trade list \<Rightarrow> Trade list" where
  "filteredTrades H filters trades = filter (tradeFilter H filters) trades"

text \<open>
  The four predicates of the filter, each read off its own statements of the callback
  and each depending on its own fields of the filter only.
\<close>

definition pairPredicate :: "string \<Rightarrow> Trade \<Rightarrow> bool" where
  "pairPredicate fpair trade =
     (\<not> (fpair \<noteq> [] \<and>
          \<not> includes_str (toLowerCase (pair trade)) (toLowerCase (trim fpair))))"

definition strategyPredicate :: "string \<Rightarrow> Trade \<Rightarrow> bool" where
  "strategyPredicate fstrategy trade =
     (\<not> (fstrategy \<noteq> [] \<and>
          \<not> includes_str (toLowerCase (strategy trade)) (toLowerCase (trim fstrategy))))"

definition directionPredicate :: "DirectionFilter \<Rightarrow> Trade \<Rightarrow> bool" where
  "directionPredicate fdir trade = (\<not> (fdir \<noteq> All \<and> Only (direction trade) \<noteq> fdir))"

definition dateRangePredicate :: "host \<Rightarrow> string \<Rightarrow> string \<Rightarrow> Trade \<Rightarrow> bool" where
  "dateRangePredicate H fstart fend trade =
     (\<not> (fstart \<noteq> [] \<and> \<not> isNaN (getTime H fstart) \<and>
          lt (getTime H (date trade)) (getTime H fstart)) \<and>
      \<not> (fend \<noteq> [] \<and> \<not> isNaN (getTime H fend) \<and>
          gt (getTime H (date trade)) (getTime H fend)))"

text \<open>
  The wording of the specification for a date bound: a bound counts when it is present
  and is a date, and the date of the trade is then compared with \<^verbatim>\<open>>=\<close> and
  \<^verbatim>\<open><=\<close>.
\<close>

definition parseableBound :: "host \<Rightarrow> string \<Rightarrow> bool" where
  "parseableBound H bound = (bound \<noteq> [] \<and> \<not> isNaN (getTime H bound))"

definition dateRange_spec :: "host \<Rightarrow> string \<Rightarrow> string \<Rightarrow> Trade \<Rightarrow> bool" where
  "dateRange_spec H fstart fend trade =
     ((parseableBound H fstart \<longrightarrow> ge (getTime H (date trade)) (getTime H fstart)) \<and>
      (parseableBound H fend \<longrightarrow> le (getTime H (date trade)) (getTime H fend)))"

section \<open>Sorted view\<close>

text \<open>The comparison function of \<^verbatim>\<open>sortedTrades\<close>, one case for each sort key.\<close>

fun sortComparator :: "host \<Rightarrow> SortKey \<Rightarrow> Trade \<Rightarrow> Trade \<Rightarrow> number" where
  "sortComparator H DateAsc a b = sub H (getTime H (date a)) (getTime H (date b))"
| "sortComparator H PnlDesc a b = sub H (pnl b) (pnl a)"
| "sortComparator H PnlAsc a b = sub H (pnl a) (pnl b)"
| "sortComparator H SizeDesc a b = sub H (positionSize b) (positionSize a)"
| "sortComparator H SizeAsc a b = sub H (positionSize a) (positionSize b)"
| "sortComparator H DateDesc a b = sub H (getTime H (date b)) (getTime H (date a))"

definition sortedTrades :: "host \<Rightarrow> SortKey \<Rightarrow> Trade list \<Rightarrow> Trade list" where
  "sortedTrades H sortKey filtered =
     array_sort (engineSort H) (sortComparator H sortKey) filtered"

text \<open>\<open>before xs a b\<close>: some occurrence of \<open>a\<close> in \<open>xs\<close> has an occurrence of \<open>b\<close> behind it.\<close>

fun before :: "'a list \<Rightarrow> 'a \<Rightarrow> 'a \<Rightarrow> bool" where
  "before [] a b = False"
| "before (x # xs) a b = ((x = a \<and> b \<in> set xs) \<or> before xs a b)"

section \<open>Statistics\<close>

text \<open>
  The statistics of the page, each a function of the filtered list. Counts are natural
  numbers, which are doubles as they stand; the two differences are taken in the
  integers.
\<close>

definition totalPnL :: "host \<Rightarrow> Trade list \<Rightarrow> number" where
  "totalPnL H filtered = foldl (\<lambda>acc trade. add H acc (pnl trade)) (Fin 0) filtered"

definition totalTrades :: "Trade list \<Rightarrow> nat" where
  "totalTrades filtered = length filtered"

definition winningTrades :: "Trade list \<Rightarrow> nat" where
  "winningTrades filtered = length (filter (\<lambda>trade. gt (pnl trade) (Fin 0)) filtered)"

definition avgPnl :: "host \<Rightarrow> Trade list \<Rightarrow> number" where
  "avgPnl H filtered =
     (if totalTrades filtered > 0
      then divide_num H (totalPnL H filtered) (Fin (real (totalTrades filtered)))
      else Fin 0)"

definition longTrades :: "Trade list \<Rightarrow> nat" where
  "longTrades filtered = length (filter (\<lambda>trade. direction trade = Long) filtered)"

definition shortTrades :: "Trade list \<Rightarrow> int" where
  "shortTrades filtered = int (totalTrades filtered) - int (longTrades filtered)"

definition losingTrades :: "Trade list \<Rightarrow> int" where
  "losingTrades filtered = int (totalTrades filtered) - int (winningTrades filtered)"

definition winRate :: "host \<Rightarrow> Trade list \<Rightarrow> number" where
  "winRate H filtered =
     (if totalTrades filtered > 0
      then Math_round
             (mul H (divide_num H (Fin (real (winningTrades filtered)))
                       (Fin (real (totalTrades filtered))))
                (Fin 100))
      else Fin 0)"

text \<open>
  The reference definition of the win rate in the arithmetic of the program:
  \<open>round (winners / total * 100)\<close>.
\<close>

definition winRate_spec :: "host \<Rightarrow> nat \<Rightarrow> nat \<Rightarrow> number" where
  "winRate_spec H w n =
     Math_round (mul H (divide_num H (Fin (real w)) (Fin (real n))) (Fin 100))"

text \<open>The real value of a finite number; it is used under \<open>isFinite\<close> only.\<close>

fun realOf :: "number \<Rightarrow> real" where
  "realOf (Fin x) = x"
| "realOf a = 0"

section \<open>Profit and loss preview\<close>

text \<open>\<^verbatim>\<open>calculatedPnL\<close>; \<^verbatim>\<open>null\<close> is \<open>None\<close>.\<close>

definition calculatedPnL :: "host \<Rightarrow> TradeFormData \<Rightarrow> number option" where
  "calculatedPnL H fd =
     (let parsedEntry = parseFloat H (form_entryPrice fd);
          parsedExit = parseFloat H (form_exitPrice fd);
          parsedSize = parseFloat H (form_positionSize fd)
      in if \<not> isFinite parsedEntry \<or> \<not> isFinite parsedExit \<or>
            \<not> isFinite parsedSize \<or> le parsedSize (Fin 0)
         then None
         else Some (calculatePnL H (form_direction fd) parsedEntry parsedExit parsedSize))"

text \<open>
  The formula of the data model in the arithmetic of the program: the price difference
  in the direction of the trade, times the size.
\<close>

definition profitLoss_spec ::
  "host \<Rightarrow> TradeDirection \<Rightarrow> number \<Rightarrow> number \<Rightarrow> number \<Rightarrow> number" where
  "profitLoss_spec H dir entry exit sz =
     (case dir of Long \<Rightarrow> mul H (sub H exit entry) sz
      | Short \<Rightarrow> mul H (sub H entry exit) sz)"

section \<open>Application state and form submission\<close>

text \<open>
  The part of the component state that the submit handler reads and writes. What the
  handler does to the outside is recorded, in order, as a list of effects: an alert
  shown to the user, or a request sent to the storage collaborator.
\<close>

record AppState =
  trades :: "Trade list"
  isModalOpen :: bool
  editingTradeId :: "string option"
  formData :: TradeFormData
  isSubmitting :: bool

record Payload =
  payload_pair :: string
  payload_direction :: TradeDirection
  payload_strategy :: string
  payload_entry_price :: number
  payload_exit_price :: number
  payload_position_size :: number
  payload_pnl :: number
  payload_sentiment :: "string option"
  payload_trade_date :: string

datatype db_request = UpdateRow string Payload | InsertRow Payload

text \<open>
  The collaborator answers a request with an error, which the handler throws, or with
  the stored row (possibly none). \<open>Failed (Some m)\<close> is an \<^verbatim>\<open>Error\<close> object with
  message \<open>m\<close>, \<open>Failed None\<close> any other thrown value.
\<close>

datatype db_response = Failed "string option" | Returned "TradeRow option"

datatype effect = Alert string | Request db_request

definition createEmptyFormState :: "host \<Rightarrow> TradeFormData" where
  "createEmptyFormState H =
     \<lparr> form_pair = [], form_direction = Long, form_strategy = [],
       form_entryPrice = [], form_exitPrice = [], form_positionSize = [],
       form_date = today H, form_sentiment = [] \<rparr>"

definition closeModal :: "host \<Rightarrow> AppState \<Rightarrow> AppState" where
  "closeModal H st =
     st\<lparr> isModalOpen := False, editingTradeId := None,
         formData := createEmptyFormState H \<rparr>"

text \<open>
  \<^verbatim>\<open>handleSubmit\<close> of \<^verbatim>\<open>src/app/page.tsx\<close>. The four validation steps return early
  after an alert. Otherwise the payload goes to the collaborator (an update when an
  edited identifier is set and not empty, an insert otherwise); its row, when there is
  one, is normalized into the list, the modal closes, and \<^verbatim>\<open>isSubmitting\<close> ends
  false in every case.
\<close>

definition handleSubmit ::
  "host \<Rightarrow> (db_request \<Rightarrow> db_response) \<Rightarrow> AppState \<Rightarrow> AppState \<times> effect list" where
  "handleSubmit H db st =
     (let fd = formData st in
      if trim (form_pair fd) = [] then (st, [Alert ''Please enter a trading pair.''])
      else if trim (form_strategy fd) = []
      then (st, [Alert ''Please enter a strategy name.''])
      else
        let parsedEntry = parseFloat H (form_entryPrice fd);
            parsedExit = parseFloat H (form_exitPrice fd);
            parsedSize = parseFloat H (form_positionSize fd);
            entryPrice' = (if isFinite parsedEntry then parsedEntry else Fin 0);
            exitPrice' = (if isFinite parsedExit then parsedExit else Fin 0);
            positionSize' = (if isFinite parsedSize then parsedSize else Fin 0)
        in
        if \<not> isFinite parsedEntry \<or> \<not> isFinite parsedExit
        then (st, [Alert ''Please enter valid numeric values for entry and exit price.''])
        else if \<not> isFinite parsedSize \<or> le parsedSize (Fin 0)
        then (st, [Alert ''Please enter a position size greater than zero.''])
        else
          let pnl' = calculatePnL H (form_direction fd) entryPrice' exitPrice' positionSize';
              payload =
                \<lparr> payload_pair = form_pair fd,
                  payload_direction = form_direction fd,
                  payload_strategy = form_strategy fd,
                  payload_entry_price = entryPrice',
                  payload_exit_price = exitPrice',
                  payload_position_size = positionSize',
                  payload_pnl = pnl',
                  payload_sentiment =
                    (if trim (form_sentiment fd) \<noteq> [] then Some (form_sentiment fd)
                     else None),
                  payload_trade_date = form_date fd \<rparr>;
              request =
                (case editingTradeId st of
                   Some eid \<Rightarrow>
                     if eid \<noteq> [] then UpdateRow eid payload else InsertRow payload
                 | None \<Rightarrow> InsertRow payload)
          in
          (case db request of
             Failed thrown \<Rightarrow>
               (st\<lparr> isSubmitting := False \<rparr>,
                [Request request,
                 Alert (case thrown of Some message \<Rightarrow> message
                        | None \<Rightarrow> ''Failed to save trade. Please try again.'')])
           | Returned None \<Rightarrow>
               ((closeModal H st)\<lparr> isSubmitting := False \<rparr>, [Request request])
           | Returned (Some data) \<Rightarrow>
               (let stored = mapRowToTrade H data;
                    trades' =
                      (case request of
                         UpdateRow eid p \<Rightarrow>
                           sortTradesByDateDesc H
                             (map (\<lambda>trade. if trade_id trade = eid then stored else trade)
                                (trades st))
                       | InsertRow p \<Rightarrow> sortTradesByDateDesc H (stored # trades st))
                in ((closeModal H (st\<lparr> trades := trades' \<rparr>))\<lparr> isSubmitting := False \<rparr>,
                    [Request request]))))"

text \<open>The record \<^verbatim>\<open>newTrade\<close> that the first version of the page builds on creation.\<close>

definition newTrade ::
  "host \<Rightarrow> TradeFormData \<Rightarrow> number \<Rightarrow> number \<Rightarrow> number \<Rightarrow> number \<Rightarrow> Trade" where
  "newTrade H fd entryPrice' exitPrice' pnl' positionSize' =
     \<lparr> trade_id = now H,
       pair = form_pair fd,
       direction = form_direction fd,
       strategy = form_strategy fd,
       entryPrice = entryPrice',
       exitPrice = exitPrice',
       pnl = pnl',
       date = form_date fd,
       sentiment = form_sentiment fd,
       positionSize = positionSize' \<rparr>"

text \<open>
  \<^verbatim>\<open>handleSubmit\<close> of the first version of the page
  (\<^verbatim>\<open>src/unnamed/part_000\<close>), which keeps the trades in memory only: the same
  validation, then the edited trade is rewritten in place or the new trade is put in
  front, with \<^verbatim>\<open>Date.now().toString()\<close> as its identifier.
\<close>

definition handleSubmit_inMemory :: "host \<Rightarrow> AppState \<Rightarrow> AppState \<times> effect list" where
  "handleSubmit_inMemory H st =
     (let fd = formData st in
      if trim (form_pair fd) = [] then (st, [Alert ''Please enter a trading pair.''])
      else if trim (form_strategy fd) = []
      then (st, [Alert ''Please enter a strategy name.''])
      else
        let parsedEntry = parseFloat H (form_entryPrice fd);
            parsedExit = parseFloat H (form_exitPrice fd);
            parsedSize = parseFloat H (form_positionSize fd);
            entryPrice' = (if isFinite parsedEntry then parsedEntry else Fin 0);
            exitPrice' = (if isFinite parsedExit then parsedExit else Fin 0);
            positionSize' = (if isFinite parsedSize then parsedSize else Fin 0)
        in
        if \<not> isFinite parsedEntry \<or> \<not> isFinite parsedExit
        then (st, [Alert ''Please enter valid numeric values for entry and exit price.''])
        else if \<not> isFinite parsedSize \<or> le parsedSize (Fin 0)
        then (st, [Alert ''Please enter a position size greater than zero.''])
        else
          let pnl' = calculatePnL H (form_direction fd) entryPrice' exitPrice' positionSize';
              trades' =
                (case editingTradeId st of
                   Some eid \<Rightarrow>
                     if eid \<noteq> [] then
                       map (\<lambda>trade.
                              if trade_id trade = eid
                              then trade\<lparr> pair := form_pair fd,
                                         direction := form_direction fd,
                                         strategy := form_strategy fd,
                                         entryPrice := entryPrice',
                                         exitPrice := exitPrice',
                                         pnl := pnl',
                                         date := form_date fd,
                                         sentiment := form_sentiment fd,
                                         positionSize := positionSize' \<rparr>
                              else trade)
                         (trades st)
                     else newTrade H fd entryPrice' exitPrice' pnl' positionSize' # trades st
                 | None \<Rightarrow>
                     newTrade H fd entryPrice' exitPrice' pnl' positionSize' # trades st)
          in (closeModal H (st\<lparr> trades := trades' \<rparr>), []))"

section \<open>Notions used in the statements\<close>

text \<open>The requests among the effects of a handler, and the payload of a request.\<close>

fun requests :: "effect list \<Rightarrow> db_request list" where
  "requests [] = []"
| "requests (Alert m # es) = requests es"
| "requests (Request r # es) = r # requests es"

fun requestPayload :: "db_request \<Rightarrow> Payload" where
  "requestPayload (UpdateRow eid p) = p"
| "requestPayload (InsertRow p) = p"

text \<open>
  A profit/loss \<open>p\<close> follows the formula of the data model for a direction, two prices
  and a size when the three are finite and \<open>p\<close> is what the formula gives.
\<close>

definition pnlByFormula ::
  "host \<Rightarrow> TradeDirection \<Rightarrow> number \<Rightarrow> number \<Rightarrow> number \<Rightarrow> number \<Rightarrow> bool" where
  "pnlByFormula H dir entry exit sz p =
     (isFinite entry \<and> isFinite exit \<and> isFinite sz \<and>
      p = profitLoss_spec H dir entry exit sz)"

definition tradeFollowsFormula :: "host \<Rightarrow> Trade \<Rightarrow> bool" where
  "tradeFollowsFormula H t =
     pnlByFormula H (direction t) (entryPrice t) (exitPrice t) (positionSize t) (pnl t)"

definition payloadFollowsFormula :: "host \<Rightarrow> Payload \<Rightarrow> bool" where
  "payloadFollowsFormula H p =
     pnlByFormula H (payload_direction p) (payload_entry_price p) (payload_exit_price p)
       (payload_position_size p) (payload_pnl p)"

text \<open>
  A profit/loss is the guarded result when it is what \<^verbatim>\<open>calculatePnL\<close> returns for
  the direction, prices and size stored next to it.
\<close>

definition tradeGuarded :: "host \<Rightarrow> Trade \<Rightarrow> bool" where
  "tradeGuarded H t =
     (pnl t = calculatePnL H (direction t) (entryPrice t) (exitPrice t) (positionSize t))"

definition payloadGuarded :: "host \<Rightarrow> Payload \<Rightarrow> bool" where
  "payloadGuarded H p =
     (payload_pnl p =
        calculatePnL H (payload_direction p) (payload_entry_price p)
          (payload_exit_price p) (payload_position_size p))"

text \<open>
  A row as the storage collaborator delivers it, decoded from JSON: a profit/loss that
  arrives as a number is a double or an infinity, never NaN. A collaborator is a JSON
  collaborator when every row it returns is such a row.
\<close>

definition jsonRow :: "host \<Rightarrow> TradeRow \<Rightarrow> bool" where
  "jsonRow H row =
     (case row_pnl row of RawNumber v \<Rightarrow> properNumber H v | RawString s \<Rightarrow> True
      | RawNull \<Rightarrow> True)"

definition jsonCollaborator :: "host \<Rightarrow> (db_request \<Rightarrow> db_response) \<Rightarrow> bool" where
  "jsonCollaborator H db = (\<forall>r row. db r = Returned (Some row) \<longrightarrow> jsonRow H row)"

text \<open>The order of two numbers as \<open>-1\<close>, \<open>0\<close> or \<open>1\<close>.\<close>

definition cmpNum :: "number \<Rightarrow> number \<Rightarrow> int" where
  "cmpNum p q = (if lt p q then - 1 else if lt q p then 1 else 0)"

text \<open>
  The validation failures of the specification: a missing pair or strategy, a price
  that is not a finite number, a size that is not a finite number above zero.
\<close>

definition formInvalid :: "host \<Rightarrow> TradeFormData \<Rightarrow> bool" where
  "formInvalid H fd =
     (trim (form_pair fd) = [] \<or> trim (form_strategy fd) = [] \<or>
      \<not> isFinite (parseFloat H (form_entryPrice fd)) \<or>
      \<not> isFinite (parseFloat H (form_exitPrice fd)) \<or>
      \<not> (isFinite (parseFloat H (form_positionSize fd)) \<and>
         gt (parseFloat H (form_positionSize fd)) (Fin 0)))"

section \<open>Sample data\<close>

text \<open>
  A host for the examples. It reads the listed texts as JavaScript does
  (\<^verbatim>\<open>new Date("2024-01-01").getTime()\<close> is 1704067200000, and so on) and, like
  JavaScript, does not read the empty text or the words used below as a number or a
  date. Its rounding agrees with binary64 on every real it is given in the examples:
  three tenths go to the double written \<^verbatim>\<open>0.3\<close>, which is 5404319552844595 / 2^54,
  960 times that double goes to 288, a real of magnitude \<open>2^1024\<close> or more overflows,
  and the other reals of the examples are doubles and stay as they are. Its engine
  sort returns the list as it is.
\<close>

definition overflowThreshold :: real where
  "overflowThreshold = 2 ^ 1024"

definition sampleHost :: host where
  "sampleHost =
     \<lparr> parseFloat =
         (\<lambda>s. if s = ''61250'' then Fin 61250
              else if s = ''63100'' then Fin 63100
              else if s = ''0.5'' then Fin (1 / 2)
              else if s = ''-2'' then Fin (- 2)
              else if s = ''Infinity'' then PosInf
              else NaN),
       getTime =
         (\<lambda>s. if s = ''2024-01-01'' then Fin 1704067200000
              else if s = ''2024-04-03'' then Fin 1712102400000
              else if s = ''2024-04-07'' then Fin 1712448000000
              else if s = ''2024-04-10'' then Fin 1712707200000
              else if s = ''2024-04-12'' then Fin 1712880000000
              else NaN),
       today = ''2024-05-01'',
       now = ''1714521600000'',
       fl =
         (\<lambda>x. if x = 3 / 10 then Fin (5404319552844595 / 18014398509481984)
              else if x = 960 * (5404319552844595 / 18014398509481984) then Fin 288
              else if \<bar>x\<bar> < overflowThreshold then Fin x
              else if 0 < x then PosInf else NegInf),
       engineSort = (\<lambda>cmp xs. xs) \<rparr>"

definition sampleTrade :: "string \<Rightarrow> string \<Rightarrow> number \<Rightarrow> Trade" where
  "sampleTrade i d p =
     \<lparr> trade_id = i, pair = ''BTC / USDT'', direction = Long, strategy = ''Breakout'',
       entryPrice = Fin 100, exitPrice = Fin 101, pnl = p, date = d, sentiment = [],
       positionSize = Fin 1 \<rparr>"

definition sampleForm :: "string \<Rightarrow> string \<Rightarrow> string \<Rightarrow> string \<Rightarrow> TradeFormData" where
  "sampleForm p entry exit sz =
     \<lparr> form_pair = p, form_direction = Long, form_strategy = ''Trend Break'',
       form_entryPrice = entry, form_exitPrice = exit, form_positionSize = sz,
       form_date = ''2024-04-12'', form_sentiment = [] \<rparr>"

definition sampleState :: "TradeFormData \<Rightarrow> AppState" where
  "sampleState fd =
     \<lparr> trades = initialTrades sampleHost, isModalOpen = True, editingTradeId = None,
       formData = fd, isSubmitting = False \<rparr>"

text \<open>A collaborator that stores nothing and answers every request with an error.\<close>

definition failingDb :: "db_request \<Rightarrow> db_response" where
  "failingDb r = Failed (Some ''offline'')"

text \<open>A stored row with one numeric field of each kind and no sentiment.\<close>

definition sampleRow :: TradeRow where
  "sampleRow =
     \<lparr> row_id = ''7'', row_pair = ''ETH / USDT'', row_direction = Short,
       row_strategy = ''Mean Revert'', entry_price = RawString ''61250'',
       exit_price = RawNumber (Fin 3040), row_pnl = RawString ''n/a'',
       position_size = RawNull, row_sentiment = None, trade_date = ''2024-04-10'' \<rparr>"

section \<open>Auxiliary facts\<close>

subsection \<open>Arithmetic, handlers and statistics\<close>

lemma isFinite_iff: "isFinite a \<longleftrightarrow> (\<exists>x. a = Fin x)"
  by (cases a) simp_all

lemma le_Fin_0: "le (Fin x) (Fin 0) \<longleftrightarrow> x \<le> 0"
  by (simp add: le_def not_less)

lemma gt_Fin_0: "gt (Fin x) (Fin 0) \<longleftrightarrow> 0 < x"
  by (simp add: gt_def)

lemma calculatePnL_finite:
  "isFinite entry \<Longrightarrow> isFinite exit \<Longrightarrow> isFinite sz \<Longrightarrow>
   calculatePnL H dir entry exit sz = profitLoss_spec H dir entry exit sz"
  by (cases dir) (simp_all add: calculatePnL_def profitLoss_spec_def)

lemma calculatePnL_nonfinite:
  "\<not> isFinite entry \<or> \<not> isFinite exit \<or> \<not> isFinite sz \<Longrightarrow>
   calculatePnL H dir entry exit sz = Fin 0"
  by (auto simp: calculatePnL_def)

lemma fl_int:
  assumes "ieeeHost H" and "\<bar>n\<bar> \<le> 2 ^ 53"
  shows "fl H (real_of_int n) = Fin (real_of_int n)"
  using assms unfolding ieeeHost_def by blast

lemma fl_finite:
  assumes "ieeeHost H" and "\<bar>x\<bar> \<le> 2 ^ 53"
  shows "isFinite (fl H x)"
  using assms unfolding ieeeHost_def by blast

lemma fl_not_NaN: "ieeeHost H \<Longrightarrow> \<not> isNaN (fl H x)"
  unfolding ieeeHost_def by blast

lemma fl_idem: "ieeeHost H \<Longrightarrow> fl H x = Fin y \<Longrightarrow> fl H y = Fin y"
  unfolding ieeeHost_def by blast

lemma fl_proper: "ieeeHost H \<Longrightarrow> properNumber H (fl H x)"
  using fl_not_NaN [of H x] fl_idem [of H x] by (cases "fl H x") auto

lemma profit_examples:
  assumes "ieeeHost H"
  shows "calculatePnL H Long (Fin 61250) (Fin 63100) (Fin (1 / 2)) = Fin 925"
    and "calculatePnL H Short (Fin 3120) (Fin 3040) (Fin 20) = Fin 1600"
  using fl_int [OF assms, of 1850] fl_int [OF assms, of 925]
    fl_int [OF assms, of 80] fl_int [OF assms, of 1600]
  by (simp_all add: calculatePnL_def sub_def)

lemma initialTrades_formula:
  assumes "ieeeHost H"
  shows "\<forall>t\<in>set (initialTrades H). tradeFollowsFormula H t"
  using fl_finite [OF assms, of "3 / 10"]
  by (simp add: initialTrades_def tradeFollowsFormula_def pnlByFormula_def
      calculatePnL_finite)

lemma handleSubmit_requests_formula:
  "r \<in> set (requests (snd (handleSubmit H db st))) \<Longrightarrow>
   payloadFollowsFormula H (requestPayload r)"
  unfolding handleSubmit_def Let_def payloadFollowsFormula_def pnlByFormula_def
  by (auto simp: calculatePnL_finite split: if_splits option.splits db_response.splits)

lemma handleSubmit_requests_guarded:
  "r \<in> set (requests (snd (handleSubmit H db st))) \<Longrightarrow> payloadGuarded H (requestPayload r)"
  unfolding handleSubmit_def Let_def payloadGuarded_def
  by (auto split: if_splits option.splits db_response.splits)

lemma handleSubmit_inMemory_formula:
  "t \<in> set (trades (fst (handleSubmit_inMemory H st))) \<Longrightarrow>
   t \<in> set (trades st) \<or> tradeFollowsFormula H t"
  unfolding handleSubmit_inMemory_def Let_def tradeFollowsFormula_def pnlByFormula_def
    closeModal_def newTrade_def
  by (auto simp: calculatePnL_finite split: if_splits option.splits)

lemma handleSubmit_inMemory_guarded:
  "t \<in> set (trades (fst (handleSubmit_inMemory H st))) \<Longrightarrow>
   t \<in> set (trades st) \<or> tradeGuarded H t"
  unfolding handleSubmit_inMemory_def Let_def tradeGuarded_def closeModal_def newTrade_def
  by (auto split: if_splits option.splits)

lemma handleSubmit_invalid:
  "formInvalid H (formData st) \<Longrightarrow> \<exists>m. handleSubmit H db st = (st, [Alert m])"
  unfolding formInvalid_def handleSubmit_def Let_def
  by (auto simp: isFinite_iff le_Fin_0 gt_Fin_0 not_less)

lemma handleSubmit_inMemory_invalid:
  "formInvalid H (formData st) \<Longrightarrow> \<exists>m. handleSubmit_inMemory H st = (st, [Alert m])"
  unfolding formInvalid_def handleSubmit_inMemory_def Let_def
  by (auto simp: isFinite_iff le_Fin_0 gt_Fin_0 not_less)

lemma totalPnL_Nil: "totalPnL H [] = Fin 0"
  by (simp add: totalPnL_def)

lemma totalPnL_snoc: "totalPnL H (ts @ [t]) = add H (totalPnL H ts) (pnl t)"
  by (simp add: totalPnL_def)

lemma totalPnL_exact:
  assumes "\<forall>t\<in>set ts. isFinite (pnl t)"
    and "\<forall>k\<le>length ts. fl H (\<Sum>t\<leftarrow>take k ts. realOf (pnl t)) = Fin (\<Sum>t\<leftarrow>take k ts. realOf (pnl t))"
  shows "totalPnL H ts = Fin (\<Sum>t\<leftarrow>ts. realOf (pnl t))"
  using assms
proof (induction ts rule: rev_induct)
  case Nil
  then show ?case by (simp add: totalPnL_Nil)
next
  case (snoc t ts)
  from snoc.prems(1) obtain x where x: "pnl t = Fin x" by (auto simp: isFinite_iff)
  have "\<forall>k\<le>length ts. fl H (\<Sum>t\<leftarrow>take k ts. realOf (pnl t)) = Fin (\<Sum>t\<leftarrow>take k ts. realOf (pnl t))"
  proof (intro allI impI)
    fix k assume k: "k \<le> length ts"
    then have "k \<le> length (ts @ [t])" by simp
    from snoc.prems(2) [rule_format, OF this] k
    show "fl H (\<Sum>t\<leftarrow>take k ts. realOf (pnl t)) = Fin (\<Sum>t\<leftarrow>take k ts. realOf (pnl t))"
      by simp
  qed
  with snoc have ih: "totalPnL H ts = Fin (\<Sum>t\<leftarrow>ts. realOf (pnl t))" by simp
  have "length (ts @ [t]) \<le> length (ts @ [t])" by simp
  from snoc.prems(2) [rule_format, OF this]
  have "fl H ((\<Sum>t\<leftarrow>ts. realOf (pnl t)) + x) = Fin ((\<Sum>t\<leftarrow>ts. realOf (pnl t)) + x)"
    using x by simp
  with ih x show ?case by (simp add: totalPnL_snoc)
qed

lemma losingTrades_count:
  "losingTrades ts = int (length (filter (\<lambda>trade. \<not> gt (pnl trade) (Fin 0)) ts))"
  using sum_length_filter_compl [of "\<lambda>trade. gt (pnl trade) (Fin 0)" ts]
  by (simp add: losingTrades_def totalTrades_def winningTrades_def)

lemma winRate_nonempty:
  "ts \<noteq> [] \<Longrightarrow> winRate H ts = winRate_spec H (winningTrades ts) (totalTrades ts)"
  by (simp add: winRate_def winRate_spec_def totalTrades_def)

lemma avgPnl_nonempty:
  "ts \<noteq> [] \<Longrightarrow> avgPnl H ts = divide_num H (totalPnL H ts) (Fin (real (totalTrades ts)))"
  by (simp add: avgPnl_def totalTrades_def)

lemma stats_empty: "winRate H [] = Fin 0 \<and> avgPnl H [] = Fin 0"
  by (simp add: winRate_def avgPnl_def totalTrades_def)

lemma threshold_gt: "(2::real) ^ 53 < overflowThreshold"
  by (simp add: overflowThreshold_def)

lemma fl_sample:
  "fl sampleHost x =
     (if x = 3 / 10 then Fin (5404319552844595 / 18014398509481984)
      else if x = 960 * (5404319552844595 / 18014398509481984) then Fin 288
      else if \<bar>x\<bar> < overflowThreshold then Fin x
      else if 0 < x then PosInf else NegInf)"
  by (simp add: sampleHost_def)

lemma fl_sample_small:
  "\<bar>x\<bar> \<le> 2 ^ 53 \<Longrightarrow> x \<noteq> 3 / 10 \<Longrightarrow>
   x \<noteq> 960 * (5404319552844595 / 18014398509481984) \<Longrightarrow> fl sampleHost x = Fin x"
  using threshold_gt by (simp add: fl_sample)

subsection \<open>Sorting\<close>

lemma set_insertSorted: "set (insertSorted cmp x ys) = insert x (set ys)"
  by (induction ys) auto

lemma set_insertion: "set (foldr (insertSorted cmp) xs []) = set xs"
  by (induction xs) (simp_all add: set_insertSorted)

lemma set_array_sort:
  "ieeeHost H \<Longrightarrow> set (array_sort (engineSort H) cmp xs) = set xs"
  by (simp add: array_sort_def set_insertion ieeeHost_def)

lemma insertSorted_sorted:
  assumes asym: "\<And>a b. a \<in> A \<Longrightarrow> b \<in> A \<Longrightarrow> sortCompare cmp a b > 0 \<Longrightarrow> \<not> sortCompare cmp b a > 0"
    and ntr: "\<And>a b c. a \<in> A \<Longrightarrow> b \<in> A \<Longrightarrow> c \<in> A \<Longrightarrow>
                \<not> sortCompare cmp a b > 0 \<Longrightarrow> \<not> sortCompare cmp b c > 0 \<Longrightarrow> \<not> sortCompare cmp a c > 0"
    and "x \<in> A" and "set ys \<subseteq> A"
    and "sorted_wrt (\<lambda>a b. \<not> sortCompare cmp a b > 0) ys"
  shows "sorted_wrt (\<lambda>a b. \<not> sortCompare cmp a b > 0) (insertSorted cmp x ys)"
  using assms(3-5)
proof (induction ys)
  case Nil
  then show ?case by simp
next
  case (Cons y ys)
  show ?case
  proof (cases "sortCompare cmp x y > 0")
    case True
    from Cons.prems have ys: "set ys \<subseteq> A" "sorted_wrt (\<lambda>a b. \<not> sortCompare cmp a b > 0) ys"
      and y: "y \<in> A" and yall: "\<forall>z\<in>set ys. \<not> sortCompare cmp y z > 0"
      by auto
    have "sorted_wrt (\<lambda>a b. \<not> sortCompare cmp a b > 0) (insertSorted cmp x ys)"
      using Cons.IH [OF Cons.prems(1) ys] .
    moreover have "\<not> sortCompare cmp y x > 0"
      using asym [OF Cons.prems(1) y True] .
    ultimately show ?thesis
      using True yall by (simp add: set_insertSorted)
  next
    case False
    from Cons.prems have y: "y \<in> A" and ys: "set ys \<subseteq> A"
      and yall: "\<forall>z\<in>set ys. \<not> sortCompare cmp y z > 0" by auto
    have "\<forall>z\<in>set ys. \<not> sortCompare cmp x z > 0"
    proof
      fix z assume z: "z \<in> set ys"
      with ys have "z \<in> A" by auto
      from ntr [OF Cons.prems(1) y this False] yall z
      show "\<not> sortCompare cmp x z > 0" by simp
    qed
    with False Cons.prems(3) show ?thesis by simp
  qed
qed

lemma insertion_sorted:
  assumes asym: "\<And>a b. a \<in> A \<Longrightarrow> b \<in> A \<Longrightarrow> sortCompare cmp a b > 0 \<Longrightarrow> \<not> sortCompare cmp b a > 0"
    and ntr: "\<And>a b c. a \<in> A \<Longrightarrow> b \<in> A \<Longrightarrow> c \<in> A \<Longrightarrow>
                \<not> sortCompare cmp a b > 0 \<Longrightarrow> \<not> sortCompare cmp b c > 0 \<Longrightarrow> \<not> sortCompare cmp a c > 0"
    and "set xs \<subseteq> A"
  shows "sorted_wrt (\<lambda>a b. \<not> sortCompare cmp a b > 0) (foldr (insertSorted cmp) xs [])"
  using assms(3)
proof (induction xs)
  case Nil
  then show ?case by simp
next
  case (Cons x xs)
  then have "x \<in> A" and xs: "set xs \<subseteq> A" by auto
  have "set (foldr (insertSorted cmp) xs []) \<subseteq> A" using xs by (simp add: set_insertion)
  from insertSorted_sorted [of A cmp x "foldr (insertSorted cmp) xs []", OF asym ntr \<open>x \<in> A\<close> this Cons.IH [OF xs]]
  show ?case by simp
qed

lemma lt_asym: "lt p q \<Longrightarrow> \<not> lt q p"
  by (cases p; cases q) simp_all

lemma lt_trans_num: "lt p q \<Longrightarrow> lt q r \<Longrightarrow> lt p r"
  by (cases p; cases q; cases r) simp_all

lemma lt_negtrans: "\<not> isNaN p \<Longrightarrow> \<not> isNaN q \<Longrightarrow> \<not> isNaN r \<Longrightarrow>
    \<not> lt p q \<Longrightarrow> \<not> lt q r \<Longrightarrow> \<not> lt p r"
  by (cases p; cases q; cases r) simp_all

lemma lt_total: "\<not> isNaN p \<Longrightarrow> \<not> isNaN q \<Longrightarrow> p \<noteq> q \<Longrightarrow> lt p q \<or> lt q p"
  by (cases p; cases q) auto

lemma properNumber_not_NaN: "properNumber H p \<Longrightarrow> \<not> isNaN p"
  by (cases p) simp_all

lemma signum_fl_neg:
  assumes H: "ieeeHost H" and d: "d < 0" and nz: "fl H d \<noteq> Fin 0"
  shows "signum (fl H d) = - 1"
proof -
  have a: "\<not> isNaN (fl H d)" using H by (simp add: ieeeHost_def)
  have b: "\<not> lt (Fin 0) (fl H d)" using H d by (simp add: ieeeHost_def)
  show ?thesis using a b nz by (cases "fl H d") (auto simp: not_less)
qed

lemma signum_fl_pos:
  assumes H: "ieeeHost H" and d: "0 < d" and nz: "fl H d \<noteq> Fin 0"
  shows "signum (fl H d) = 1"
proof -
  have a: "\<not> isNaN (fl H d)" using H by (simp add: ieeeHost_def)
  have b: "\<not> lt (fl H d) (Fin 0)" using H d by (simp add: ieeeHost_def)
  show ?thesis using a b nz by (cases "fl H d") (auto simp: not_less)
qed

lemma fl_diff_nonzero:
  "ieeeHost H \<Longrightarrow> fl H x = Fin x \<Longrightarrow> fl H y = Fin y \<Longrightarrow> x \<noteq> y \<Longrightarrow> fl H (x - y) \<noteq> Fin 0"
  unfolding ieeeHost_def by blast

lemma signum_sub:
  assumes H: "ieeeHost H" and p: "properNumber H p" and q: "properNumber H q"
  shows "signum (sub H p q) = cmpNum p q"
proof (cases p)
  case (Fin x)
  show ?thesis
  proof (cases q)
    case (Fin y)
    with \<open>p = Fin x\<close> p q have fx: "fl H x = Fin x" and fy: "fl H y = Fin y" by simp_all
    consider "x < y" | "x = y" | "y < x" by linarith
    then show ?thesis
    proof cases
      case 1
      then have "signum (fl H (x - y)) = - 1"
        using signum_fl_neg [OF H, of "x - y"] fl_diff_nonzero [OF H fx fy] by simp
      with 1 \<open>p = Fin x\<close> \<open>q = Fin y\<close> show ?thesis by (simp add: sub_def cmpNum_def)
    next
      case 2
      have "fl H 0 = Fin 0" using fl_int [OF H, of 0] by simp
      with 2 \<open>p = Fin x\<close> \<open>q = Fin y\<close> show ?thesis by (simp add: sub_def cmpNum_def)
    next
      case 3
      then have "signum (fl H (x - y)) = 1"
        using signum_fl_pos [OF H, of "x - y"] fl_diff_nonzero [OF H fx fy] by simp
      with 3 \<open>p = Fin x\<close> \<open>q = Fin y\<close> show ?thesis by (simp add: sub_def cmpNum_def)
    qed
  qed (use \<open>p = Fin x\<close> q in \<open>simp_all add: sub_def cmpNum_def\<close>)
qed (use p q in \<open>cases q; simp add: sub_def cmpNum_def\<close>)+

lemma cmpNum_refl: "cmpNum p p = 0"
  using lt_asym [of p p] by (auto simp: cmpNum_def)

lemma cmpNum_zero_iff: "\<not> isNaN p \<Longrightarrow> \<not> isNaN q \<Longrightarrow> cmpNum p q = 0 \<longleftrightarrow> p = q"
  using lt_total [of p q] lt_asym [of p p] by (auto simp: cmpNum_def)

lemma cmpNum_neg_iff: "cmpNum p q < 0 \<longleftrightarrow> lt p q"
  by (auto simp: cmpNum_def)

lemma cmpNum_pos_iff: "cmpNum p q > 0 \<longleftrightarrow> lt q p"
  using lt_asym [of p q] by (auto simp: cmpNum_def)

lemma pnl_comparators_consistent:
  assumes H: "ieeeHost H" and ts: "\<forall>t\<in>set ts. properNumber H (pnl t)"
  shows "consistentComparator (sortComparator H PnlAsc) ts"
    and "consistentComparator (sortComparator H PnlDesc) ts"
proof -
  have sc: "sortCompare (sortComparator H PnlAsc) a b = cmpNum (pnl a) (pnl b)"
    "sortCompare (sortComparator H PnlDesc) a b = cmpNum (pnl b) (pnl a)"
    if "a \<in> set ts" "b \<in> set ts" for a b
    using that ts signum_sub [OF H] by (simp_all add: sortCompare_def)
  have nn: "\<not> isNaN (pnl t)" if "t \<in> set ts" for t
    using that ts properNumber_not_NaN by blast
  show "consistentComparator (sortComparator H PnlAsc) ts"
    unfolding consistentComparator_def
  proof (intro ballI)
    fix a b c assume m: "a \<in> set ts" "b \<in> set ts" "c \<in> set ts"
    show "sortCompare (sortComparator H PnlAsc) a a = 0 \<and>
        (sortCompare (sortComparator H PnlAsc) a b = 0 \<longrightarrow> sortCompare (sortComparator H PnlAsc) b a = 0) \<and>
        (sortCompare (sortComparator H PnlAsc) a b = 0 \<and> sortCompare (sortComparator H PnlAsc) b c = 0 \<longrightarrow> sortCompare (sortComparator H PnlAsc) a c = 0) \<and>
        (sortCompare (sortComparator H PnlAsc) a b < 0 \<and> sortCompare (sortComparator H PnlAsc) b c < 0 \<longrightarrow> sortCompare (sortComparator H PnlAsc) a c < 0) \<and>
        (sortCompare (sortComparator H PnlAsc) a b > 0 \<and> sortCompare (sortComparator H PnlAsc) b c > 0 \<longrightarrow> sortCompare (sortComparator H PnlAsc) a c > 0)"
      using m nn lt_trans_num [of "pnl a" "pnl b" "pnl c"] lt_trans_num [of "pnl c" "pnl b" "pnl a"]
      by (auto simp: sc cmpNum_refl cmpNum_zero_iff cmpNum_neg_iff cmpNum_pos_iff)
  qed
  show "consistentComparator (sortComparator H PnlDesc) ts"
    unfolding consistentComparator_def
  proof (intro ballI)
    fix a b c assume m: "a \<in> set ts" "b \<in> set ts" "c \<in> set ts"
    show "sortCompare (sortComparator H PnlDesc) a a = 0 \<and>
        (sortCompare (sortComparator H PnlDesc) a b = 0 \<longrightarrow> sortCompare (sortComparator H PnlDesc) b a = 0) \<and>
        (sortCompare (sortComparator H PnlDesc) a b = 0 \<and> sortCompare (sortComparator H PnlDesc) b c = 0 \<longrightarrow> sortCompare (sortComparator H PnlDesc) a c = 0) \<and>
        (sortCompare (sortComparator H PnlDesc) a b < 0 \<and> sortCompare (sortComparator H PnlDesc) b c < 0 \<longrightarrow> sortCompare (sortComparator H PnlDesc) a c < 0) \<and>
        (sortCompare (sortComparator H PnlDesc) a b > 0 \<and> sortCompare (sortComparator H PnlDesc) b c > 0 \<longrightarrow> sortCompare (sortComparator H PnlDesc) a c > 0)"
      using m nn lt_trans_num [of "pnl a" "pnl b" "pnl c"] lt_trans_num [of "pnl c" "pnl b" "pnl a"]
      by (auto simp: sc cmpNum_refl cmpNum_zero_iff cmpNum_neg_iff cmpNum_pos_iff)
  qed
qed

lemma array_sort_consistent:
  "consistentComparator cmp xs \<Longrightarrow> array_sort engine cmp xs = foldr (insertSorted cmp) xs []"
  by (simp add: array_sort_def)

lemma before_sorted_wrt: "sorted_wrt R xs \<Longrightarrow> before xs a b \<Longrightarrow> R a b"
  by (induction xs) auto

lemma before_total: "a \<in> set xs \<Longrightarrow> b \<in> set xs \<Longrightarrow> a \<noteq> b \<Longrightarrow> before xs a b \<or> before xs b a"
  by (induction xs) auto

lemma sortedTrades_PnlAsc_sorted:
  assumes H: "ieeeHost H" and ts: "\<forall>t\<in>set ts. properNumber H (pnl t)"
  shows "sorted_wrt (\<lambda>a b. \<not> lt (pnl b) (pnl a)) (sortedTrades H PnlAsc ts)"
proof -
  let ?cmp = "sortComparator H PnlAsc"
  let ?xs = "foldr (insertSorted ?cmp) ts []"
  have sc: "sortCompare ?cmp a b = cmpNum (pnl a) (pnl b)"
    if "a \<in> set ts" "b \<in> set ts" for a b
    using that ts signum_sub [OF H] by (simp add: sortCompare_def)
  have nn: "\<not> isNaN (pnl t)" if "t \<in> set ts" for t
    using that ts properNumber_not_NaN by blast
  have "sorted_wrt (\<lambda>a b. \<not> sortCompare ?cmp a b > 0) ?xs"
  proof (rule insertion_sorted [where A = "set ts"])
    show "set ts \<subseteq> set ts" by simp
  next
    fix a b assume "a \<in> set ts" "b \<in> set ts" "sortCompare ?cmp a b > 0"
    then show "\<not> sortCompare ?cmp b a > 0"
      using lt_asym [of "pnl a" "pnl b"] lt_asym [of "pnl b" "pnl a"]
      by (auto simp: sc cmpNum_pos_iff)
  next
    fix a b c assume "a \<in> set ts" "b \<in> set ts" "c \<in> set ts"
      "\<not> sortCompare ?cmp a b > 0" "\<not> sortCompare ?cmp b c > 0"
    then show "\<not> sortCompare ?cmp a c > 0"
      using lt_negtrans [of "pnl c" "pnl b" "pnl a"] nn by (simp add: sc cmpNum_pos_iff)
  qed
  then have "sorted_wrt (\<lambda>a b. \<not> lt (pnl b) (pnl a)) ?xs"
  proof (rule sorted_wrt_mono_rel [rotated])
    fix a b assume "a \<in> set ?xs" "b \<in> set ?xs" and "\<not> sortCompare ?cmp a b > 0"
    then show "\<not> lt (pnl b) (pnl a)" by (simp add: set_insertion sc cmpNum_pos_iff)
  qed
  then show ?thesis
    using pnl_comparators_consistent(1) [OF H ts]
    by (simp add: sortedTrades_def array_sort_consistent)
qed

lemma sortedTrades_PnlDesc_sorted:
  assumes H: "ieeeHost H" and ts: "\<forall>t\<in>set ts. properNumber H (pnl t)"
  shows "sorted_wrt (\<lambda>a b. \<not> lt (pnl a) (pnl b)) (sortedTrades H PnlDesc ts)"
proof -
  let ?cmp = "sortComparator H PnlDesc"
  let ?xs = "foldr (insertSorted ?cmp) ts []"
  have sc: "sortCompare ?cmp a b = cmpNum (pnl b) (pnl a)"
    if "a \<in> set ts" "b \<in> set ts" for a b
    using that ts signum_sub [OF H] by (simp add: sortCompare_def)
  have nn: "\<not> isNaN (pnl t)" if "t \<in> set ts" for t
    using that ts properNumber_not_NaN by blast
  have "sorted_wrt (\<lambda>a b. \<not> sortCompare ?cmp a b > 0) ?xs"
  proof (rule insertion_sorted [where A = "set ts"])
    show "set ts \<subseteq> set ts" by simp
  next
    fix a b assume "a \<in> set ts" "b \<in> set ts" "sortCompare ?cmp a b > 0"
    then show "\<not> sortCompare ?cmp b a > 0"
      using lt_asym [of "pnl a" "pnl b"] lt_asym [of "pnl b" "pnl a"]
      by (auto simp: sc cmpNum_pos_iff)
  next
    fix a b c assume "a \<in> set ts" "b \<in> set ts" "c \<in> set ts"
      "\<not> sortCompare ?cmp a b > 0" "\<not> sortCompare ?cmp b c > 0"
    then show "\<not> sortCompare ?cmp a c > 0"
      using lt_negtrans [of "pnl a" "pnl b" "pnl c"] nn by (simp add: sc cmpNum_pos_iff)
  qed
  then have "sorted_wrt (\<lambda>a b. \<not> lt (pnl a) (pnl b)) ?xs"
  proof (rule sorted_wrt_mono_rel [rotated])
    fix a b assume "a \<in> set ?xs" "b \<in> set ?xs" and "\<not> sortCompare ?cmp a b > 0"
    then show "\<not> lt (pnl a) (pnl b)" by (simp add: set_insertion sc cmpNum_pos_iff)
  qed
  then show ?thesis
    using pnl_comparators_consistent(2) [OF H ts]
    by (simp add: sortedTrades_def array_sort_consistent)
qed

lemma pnl_sort_reversal:
  assumes H: "ieeeHost H" and ts: "\<forall>t\<in>set ts. properNumber H (pnl t)"
    and a: "a \<in> set ts" and b: "b \<in> set ts" and ne: "pnl a \<noteq> pnl b"
  shows "before (sortedTrades H PnlAsc ts) a b \<longleftrightarrow> before (sortedTrades H PnlDesc ts) b a"
    and "before (sortedTrades H PnlAsc ts) a b \<longleftrightarrow> lt (pnl a) (pnl b)"
proof -
  let ?asc = "sortedTrades H PnlAsc ts" and ?desc = "sortedTrades H PnlDesc ts"
  have sets: "set ?asc = set ts" "set ?desc = set ts"
    using H by (simp_all add: sortedTrades_def set_array_sort)
  have ab: "a \<noteq> b" using ne by auto
  have na: "\<not> isNaN (pnl a)" "\<not> isNaN (pnl b)" using ts a b properNumber_not_NaN by blast+
  have tot: "lt (pnl a) (pnl b) \<or> lt (pnl b) (pnl a)" using lt_total [OF na ne] .
  have asc1: "before ?asc a b \<Longrightarrow> lt (pnl a) (pnl b)"
    using before_sorted_wrt [OF sortedTrades_PnlAsc_sorted [OF H ts], of a b] tot by auto
  have asc2: "before ?asc b a \<Longrightarrow> lt (pnl b) (pnl a)"
    using before_sorted_wrt [OF sortedTrades_PnlAsc_sorted [OF H ts], of b a] tot by auto
  have desc1: "before ?desc b a \<Longrightarrow> lt (pnl a) (pnl b)"
    using before_sorted_wrt [OF sortedTrades_PnlDesc_sorted [OF H ts], of b a] tot by auto
  have desc2: "before ?desc a b \<Longrightarrow> lt (pnl b) (pnl a)"
    using before_sorted_wrt [OF sortedTrades_PnlDesc_sorted [OF H ts], of a b] tot by auto
  have tasc: "before ?asc a b \<or> before ?asc b a"
    using before_total [of a ?asc b] a b ab sets by simp
  have tdesc: "before ?desc a b \<or> before ?desc b a"
    using before_total [of a ?desc b] a b ab sets by simp
  show "before ?asc a b \<longleftrightarrow> lt (pnl a) (pnl b)"
    using asc1 asc2 tasc lt_asym by blast
  show "before ?asc a b \<longleftrightarrow> before ?desc b a"
    using asc1 asc2 desc1 desc2 tasc tdesc lt_asym by blast
qed

subsection \<open>The sample host\<close>

lemma threshold_pos: "0 < overflowThreshold"
  by (simp add: overflowThreshold_def)

lemma fl_sample_int:
  assumes "\<bar>n\<bar> \<le> 2 ^ 53"
  shows "fl sampleHost (real_of_int n) = Fin (real_of_int n)"
proof (rule fl_sample_small)
  have "real_of_int \<bar>n\<bar> \<le> real_of_int (2 ^ 53)" using assms by (simp only: of_int_le_iff)
  then show "\<bar>real_of_int n\<bar> \<le> 2 ^ 53" by simp
next
  show "real_of_int n \<noteq> 3 / 10"
  proof
    assume "real_of_int n = 3 / 10"
    then have "real_of_int (10 * n) = real_of_int 3" by simp
    then have "10 * n = 3" by (simp only: of_int_eq_iff)
    then show False by presburger
  qed
next
  show "real_of_int n \<noteq> 960 * (5404319552844595 / 18014398509481984)"
  proof
    assume "real_of_int n = 960 * (5404319552844595 / 18014398509481984)"
    then have "real_of_int (281474976710656 * n) = real_of_int 81064793292668925" by simp
    then have "281474976710656 * n = 81064793292668925" by (simp only: of_int_eq_iff)
    then have "even (81064793292668925 :: int)" by (metis even_mult_iff even_numeral)
    then show False by simp
  qed
qed

lemma ieeeHost_sampleHost: "ieeeHost sampleHost"
  unfolding ieeeHost_def
proof (intro conjI allI impI)
  fix n :: int assume "\<bar>n\<bar> \<le> 2 ^ 53"
  then show "fl sampleHost (real_of_int n) = Fin (real_of_int n)" by (rule fl_sample_int)
next
  fix x show "\<not> isNaN (fl sampleHost x)" by (simp add: fl_sample)
next
  fix x y assume "fl sampleHost x = Fin y"
  then show "fl sampleHost y = Fin y"
    using threshold_gt by (auto simp: fl_sample split: if_splits)
next
  fix x :: real assume "\<bar>x\<bar> \<le> 2 ^ 53"
  then show "isFinite (fl sampleHost x)" using threshold_gt by (simp add: fl_sample)
next
  fix x :: real assume "0 \<le> x"
  then show "\<not> lt (fl sampleHost x) (Fin 0)" using threshold_pos by (simp add: fl_sample)
next
  fix x :: real assume "x \<le> 0"
  then show "\<not> lt (Fin 0) (fl sampleHost x)" using threshold_pos by (simp add: fl_sample)
next
  fix x y :: real assume "fl sampleHost x = Fin x \<and> fl sampleHost y = Fin y \<and> x \<noteq> y"
  then show "fl sampleHost (x - y) \<noteq> Fin 0" by (simp add: fl_sample)
next
  fix s
  have "fl sampleHost 61250 = Fin 61250" "fl sampleHost 63100 = Fin 63100"
    "fl sampleHost (1 / 2) = Fin (1 / 2)" "fl sampleHost (- 2) = Fin (- 2)"
    using threshold_gt by (simp_all add: fl_sample)
  then show "isNaN (parseFloat sampleHost s) \<or> properNumber sampleHost (parseFloat sampleHost s)"
    by (simp add: sampleHost_def)
next
  fix cmp xs show "set (engineSort sampleHost cmp xs) = set xs" by (simp add: sampleHost_def)
qed

subsection \<open>Proper profit/loss values\<close>

lemma properNumber_zero: "ieeeHost H \<Longrightarrow> properNumber H (Fin 0)"
  using fl_int [of H 0] by simp

lemma parseNumericField_proper:
  assumes H: "ieeeHost H"
    and raw: "\<And>v. raw = RawNumber v \<Longrightarrow> properNumber H v"
  shows "properNumber H (parseNumericField H raw)"
proof (cases raw)
  case (RawNumber v)
  with raw show ?thesis by simp
next
  case (RawString s)
  have "isNaN (parseFloat H s) \<or> properNumber H (parseFloat H s)"
    using H unfolding ieeeHost_def by blast
  then show ?thesis
    using RawString properNumber_zero [OF H]
    by (cases "parseFloat H s") (auto simp: Let_def)
next
  case RawNull
  then show ?thesis using properNumber_zero [OF H] by simp
qed

lemma mapRowToTrade_pnl_proper:
  assumes "ieeeHost H" and "jsonRow H row"
  shows "properNumber H (pnl (mapRowToTrade H row))"
proof -
  have "properNumber H v" if "row_pnl row = RawNumber v" for v
    using that assms(2) by (simp add: jsonRow_def)
  from parseNumericField_proper [OF assms(1) this]
  show ?thesis by (simp add: mapRowToTrade_def)
qed

lemma calculatePnL_proper:
  assumes H: "ieeeHost H" and sz: "sz = Fin s" "0 < s"
  shows "properNumber H (calculatePnL H dir entry exit sz)"
proof (cases "isFinite entry \<and> isFinite exit")
  case False
  then show ?thesis using properNumber_zero [OF H] by (auto simp: calculatePnL_def)
next
  case True
  then obtain e x where ex: "entry = Fin e" "exit = Fin x" by (auto simp: isFinite_iff)
  have m: "properNumber H (mul H d (Fin s))" if "properNumber H d" for d
    using that sz(2) fl_proper [OF H] by (cases d) (simp_all)
  have "properNumber H (sub H (Fin x) (Fin e))" "properNumber H (sub H (Fin e) (Fin x))"
    using fl_proper [OF H] by (simp_all add: sub_def)
  then show ?thesis using ex sz m by (simp add: calculatePnL_def)
qed

lemma initialTrades_proper:
  assumes H: "ieeeHost H"
  shows "\<forall>t\<in>set (initialTrades H). properNumber H (pnl t)"
proof -
  obtain z where z: "fl H (3 / 10) = Fin z"
    using fl_finite [OF H, of "3 / 10"] by (auto simp: isFinite_iff)
  have "fl H 960 = Fin 960" using fl_int [OF H, of 960] by simp
  then have "properNumber H (calculatePnL H Short (Fin 59880) (Fin 58920) (fl H (3 / 10)))"
    using fl_proper [OF H] z by (simp add: calculatePnL_def sub_def)
  then show ?thesis
    using calculatePnL_proper [OF H]
    by (simp add: initialTrades_def)
qed

lemma handleSubmit_inMemory_proper:
  assumes H: "ieeeHost H" and inv: "\<forall>t\<in>set (trades st). properNumber H (pnl t)"
  shows "\<forall>t\<in>set (trades (fst (handleSubmit_inMemory H st))). properNumber H (pnl t)"
  using inv calculatePnL_proper [OF H]
  unfolding handleSubmit_inMemory_def Let_def closeModal_def newTrade_def
  by (auto simp: isFinite_iff le_Fin_0 not_le split: if_splits option.splits)

lemma handleSubmit_proper:
  assumes H: "ieeeHost H" and db: "jsonCollaborator H db"
    and inv: "\<forall>t\<in>set (trades st). properNumber H (pnl t)"
  shows "\<forall>t\<in>set (trades (fst (handleSubmit H db st))). properNumber H (pnl t)"
proof -
  have row: "properNumber H (pnl (mapRowToTrade H row))" if "db r = Returned (Some row)" for r row
    using that db mapRowToTrade_pnl_proper [OF H] unfolding jsonCollaborator_def by blast
  show ?thesis
    using inv row
    unfolding handleSubmit_def Let_def closeModal_def sortTradesByDateDesc_def
    by (auto simp: set_array_sort [OF H]
        split: if_splits option.splits db_response.splits db_request.splits)
qed

lemma loaded_trades_proper:
  assumes H: "ieeeHost H" and rows: "\<forall>row\<in>set rows. jsonRow H row"
  shows "\<forall>t\<in>set (filteredTrades H f (sortTradesByDateDesc H (map (mapRowToTrade H) rows))).
           properNumber H (pnl t)"
  using rows mapRowToTrade_pnl_proper [OF H]
  by (auto simp: filteredTrades_def sortTradesByDateDesc_def set_array_sort [OF H])

lemma filteredTrades_subset: "set (filteredTrades H f ts) \<subseteq> set ts"
  by (auto simp: filteredTrades_def)

subsection \<open>Sample evaluations\<close>

lemma fl_sample_ints:
  "fl sampleHost 1850 = Fin 1850" "fl sampleHost 925 = Fin 925"
  "fl sampleHost 80 = Fin 80" "fl sampleHost 1600 = Fin 1600"
  "fl sampleHost (- 6) = Fin (- 6)" "fl sampleHost (- 180) = Fin (- 180)"
  "fl sampleHost 960 = Fin 960"
  using fl_int [OF ieeeHost_sampleHost, of 1850] fl_int [OF ieeeHost_sampleHost, of 925]
    fl_int [OF ieeeHost_sampleHost, of 80] fl_int [OF ieeeHost_sampleHost, of 1600]
    fl_int [OF ieeeHost_sampleHost, of "- 6"] fl_int [OF ieeeHost_sampleHost, of "- 180"]
    fl_int [OF ieeeHost_sampleHost, of 960]
  by simp_all

lemma initialTrades_pnl:
  "map pnl (initialTrades sampleHost) = [Fin 925, Fin 1600, Fin (- 180), Fin 288]"
  by (simp add: initialTrades_def calculatePnL_def sub_def fl_sample_ints)
     (simp add: fl_sample)

lemma totalPnL_sample: "totalPnL sampleHost (initialTrades sampleHost) = Fin 2633"
proof -
  have "fl sampleHost 2525 = Fin 2525" "fl sampleHost 2345 = Fin 2345"
    "fl sampleHost 2633 = Fin 2633" "fl sampleHost 925 = Fin 925"
    using fl_int [OF ieeeHost_sampleHost, of 2525] fl_int [OF ieeeHost_sampleHost, of 2345]
      fl_int [OF ieeeHost_sampleHost, of 2633] fl_int [OF ieeeHost_sampleHost, of 925]
    by simp_all
  moreover have "totalPnL sampleHost ts = foldl (add sampleHost) (Fin 0) (map pnl ts)" for ts
    by (simp add: totalPnL_def foldl_map)
  ultimately show ?thesis by (simp add: initialTrades_pnl)
qed

lemma sample_submit:
  "handleSubmit sampleHost failingDb
     (sampleState (sampleForm ''BTC / USDT'' ''61250'' ''63100'' ''0.5'')) =
     (sampleState (sampleForm ''BTC / USDT'' ''61250'' ''63100'' ''0.5''),
      [Request (InsertRow
         \<lparr> payload_pair = ''BTC / USDT'', payload_direction = Long,
           payload_strategy = ''Trend Break'', payload_entry_price = Fin 61250,
           payload_exit_price = Fin 63100, payload_position_size = Fin (1 / 2),
           payload_pnl = Fin 925, payload_sentiment = None,
           payload_trade_date = ''2024-04-12'' \<rparr>),
       Alert ''offline''])"
proof -
  have p: "parseFloat sampleHost ''61250'' = Fin 61250" "parseFloat sampleHost ''63100'' = Fin 63100"
    "parseFloat sampleHost ''0.5'' = Fin (1 / 2)"
    by (simp_all add: sampleHost_def)
  show ?thesis
    by (simp add: handleSubmit_def p failingDb_def sampleState_def sampleForm_def
        trim_def isWhiteSpace_def profit_examples [OF ieeeHost_sampleHost] le_Fin_0 Let_def)
qed

lemma sample_submit_inMemory:
  "trades (fst (handleSubmit_inMemory sampleHost
     (sampleState (sampleForm ''BTC / USDT'' ''61250'' ''63100'' ''0.5'')))) =
     \<lparr> trade_id = ''1714521600000'', pair = ''BTC / USDT'', direction = Long,
       strategy = ''Trend Break'', entryPrice = Fin 61250, exitPrice = Fin 63100,
       pnl = Fin 925, date = ''2024-04-12'', sentiment = [],
       positionSize = Fin (1 / 2) \<rparr> # initialTrades sampleHost"
proof -
  have p: "parseFloat sampleHost ''61250'' = Fin 61250" "parseFloat sampleHost ''63100'' = Fin 63100"
    "parseFloat sampleHost ''0.5'' = Fin (1 / 2)" "now sampleHost = ''1714521600000''"
    by (simp_all add: sampleHost_def)
  show ?thesis
    by (simp add: handleSubmit_inMemory_def p sampleState_def sampleForm_def
        trim_def isWhiteSpace_def profit_examples [OF ieeeHost_sampleHost] le_Fin_0
        closeModal_def newTrade_def Let_def)
qed

lemma trades_sampleState: "trades (sampleState fd) = initialTrades sampleHost"
  by (simp add: sampleState_def)

lemma sample_invalid:
  "formInvalid sampleHost (sampleForm ''   '' ''61250'' ''63100'' ''0.5'')"
  "formInvalid sampleHost (sampleForm ''BTC / USDT'' ''61250'' ''soon'' ''0.5'')"
  "formInvalid sampleHost (sampleForm ''BTC / USDT'' ''61250'' ''63100'' ''-2'')"
  by (simp_all add: formInvalid_def sampleHost_def sampleForm_def trim_def isWhiteSpace_def
      gt_def)

lemma overflow_sample:
  "profitLoss_spec sampleHost Long (Fin (- (2 ^ 1023))) (Fin (2 ^ 1023)) (Fin 1) = PosInf"
proof -
  have "fl sampleHost (2 ^ 1023 + 2 ^ 1023) = PosInf"
    by (simp add: fl_sample overflowThreshold_def)
  then show ?thesis by (simp add: profitLoss_spec_def sub_def)
qed

lemma sample_partial_sums:
  "\<forall>k\<le>length (initialTrades sampleHost).
     fl sampleHost (\<Sum>t\<leftarrow>take k (initialTrades sampleHost). realOf (pnl t)) =
     Fin (\<Sum>t\<leftarrow>take k (initialTrades sampleHost). realOf (pnl t))"
proof (intro allI impI)
  fix k assume "k \<le> length (initialTrades sampleHost)"
  then have k: "k \<le> 4" by (simp add: initialTrades_def)
  have s: "(\<Sum>t\<leftarrow>take k (initialTrades sampleHost). realOf (pnl t)) =
      sum_list (map realOf (take k [Fin 925, Fin 1600, Fin (- 180), Fin 288]))"
  proof -
    have "map (\<lambda>t. realOf (pnl t)) (take k (initialTrades sampleHost)) =
        map realOf (take k (map pnl (initialTrades sampleHost)))"
      by (simp add: take_map)
    then show ?thesis by (simp only: initialTrades_pnl)
  qed
  from k consider "k = 0" | "k = 1" | "k = 2" | "k = 3" | "k = 4" by linarith
  then have "\<exists>n::int. \<bar>n\<bar> \<le> 2 ^ 53 \<and>
      sum_list (map realOf (take k [Fin 925, Fin 1600, Fin (- 180), Fin 288])) = real_of_int n"
  proof cases
    case 1 then show ?thesis by (intro exI [of _ 0]) simp
  next
    case 2 then show ?thesis by (intro exI [of _ 925]) simp
  next
    case 3 then show ?thesis by (intro exI [of _ 2525]) (simp add: numeral_2_eq_2)
  next
    case 4 then show ?thesis by (intro exI [of _ 2345]) (simp add: numeral_3_eq_3)
  next
    case 5 then show ?thesis by (intro exI [of _ 2633]) simp
  qed
  then obtain n :: int where "\<bar>n\<bar> \<le> 2 ^ 53"
    and "sum_list (map realOf (take k [Fin 925, Fin 1600, Fin (- 180), Fin 288])) = real_of_int n"
    by blast
  with fl_int [OF ieeeHost_sampleHost, of n] s
  show "fl sampleHost (\<Sum>t\<leftarrow>take k (initialTrades sampleHost). realOf (pnl t)) =
     Fin (\<Sum>t\<leftarrow>take k (initialTrades sampleHost). realOf (pnl t))"
    by simp
qed

lemma winRate_sample: "winRate_spec sampleHost 3 4 = Fin 75"
proof -
  have "fl sampleHost (3 / 4) = Fin (3 / 4)" using threshold_gt by (simp add: fl_sample)
  moreover have "fl sampleHost 75 = Fin 75" using fl_int [OF ieeeHost_sampleHost, of 75] by simp
  ultimately show ?thesis by (simp add: winRate_spec_def)
qed

lemma winRate_spec_exact:
  assumes "n \<noteq> 0"
    and "fl H (real w / real n) = Fin (real w / real n)"
    and "fl H (real w / real n * 100) = Fin (real w / real n * 100)"
  shows "winRate_spec H w n = Fin (of_int (round (real w / real n * 100)))"
  using assms by (simp add: winRate_spec_def round_def)

subsection \<open>Strings, filters and positions\<close>

lemma startsWith_iff: "startsWith s t \<longleftrightarrow> (\<exists>q. s = t @ q)"
  by (induction s t rule: startsWith.induct) auto

lemma includes_str_iff: "includes_str s t \<longleftrightarrow> (\<exists>p q. s = p @ t @ q)"
proof (induction s)
  case Nil
  then show ?case by auto
next
  case (Cons c cs)
  show ?case
  proof
    assume "includes_str (c # cs) t"
    then consider "startsWith (c # cs) t" | "includes_str cs t" by auto
    then show "\<exists>p q. c # cs = p @ t @ q"
    proof cases
      case 1
      then obtain q where "c # cs = t @ q" by (auto simp: startsWith_iff)
      then have "c # cs = [] @ t @ q" by simp
      then show ?thesis by blast
    next
      case 2
      with Cons.IH obtain p q where "cs = p @ t @ q" by blast
      then have "c # cs = (c # p) @ t @ q" by simp
      then show ?thesis by blast
    qed
  next
    assume "\<exists>p q. c # cs = p @ t @ q"
    then obtain p q where pq: "c # cs = p @ t @ q" by blast
    show "includes_str (c # cs) t"
    proof (cases p)
      case Nil
      with pq have "startsWith (c # cs) t" by (auto simp: startsWith_iff)
      then show ?thesis by simp
    next
      case (Cons d ds)
      with pq have "cs = ds @ t @ q" by simp
      with Cons.IH have "includes_str cs t" by blast
      then show ?thesis by simp
    qed
  qed
qed

lemma includes_str_empty: "includes_str s []"
  by (cases s) simp_all

lemma trim_Nil_iff: "trim s = [] \<longleftrightarrow> (\<forall>c\<in>set s. isWhiteSpace c)"
proof
  assume "trim s = []"
  then have "dropWhile isWhiteSpace (rev (dropWhile isWhiteSpace s)) = []"
    by (simp add: trim_def)
  then have "\<forall>c\<in>set (rev (dropWhile isWhiteSpace s)). isWhiteSpace c"
    by (simp only: dropWhile_eq_Nil_conv)
  then have "\<forall>c\<in>set (dropWhile isWhiteSpace s). isWhiteSpace c"
    by simp
  then have "dropWhile isWhiteSpace s = []"
    using hd_dropWhile [of isWhiteSpace s] by (cases "dropWhile isWhiteSpace s") auto
  then show "\<forall>c\<in>set s. isWhiteSpace c" by simp
next
  assume "\<forall>c\<in>set s. isWhiteSpace c"
  then show "trim s = []" by (auto simp: trim_def dest: set_dropWhileD)
qed

lemma pairPredicate_trimmed:
  "pairPredicate fp t \<longleftrightarrow>
   (trim fp \<noteq> [] \<longrightarrow> includes_str (toLowerCase (pair t)) (toLowerCase (trim fp)))"
proof (cases "trim fp = []")
  case True
  then show ?thesis by (simp add: pairPredicate_def toLowerCase_def includes_str_empty)
next
  case False
  then have "fp \<noteq> []" by (auto simp: trim_Nil_iff)
  with False show ?thesis by (simp add: pairPredicate_def)
qed

lemma strategyPredicate_trimmed:
  "strategyPredicate fs t \<longleftrightarrow>
   (trim fs \<noteq> [] \<longrightarrow> includes_str (toLowerCase (strategy t)) (toLowerCase (trim fs)))"
proof (cases "trim fs = []")
  case True
  then show ?thesis by (simp add: strategyPredicate_def toLowerCase_def includes_str_empty)
next
  case False
  then have "fs \<noteq> []" by (auto simp: trim_Nil_iff)
  with False show ?thesis by (simp add: strategyPredicate_def)
qed

lemma tradeFilter_conj:
  "tradeFilter H f t \<longleftrightarrow>
     pairPredicate (filter_pair f) t \<and> strategyPredicate (filter_strategy f) t \<and>
     directionPredicate (filter_direction f) t \<and>
     dateRangePredicate H (startDate f) (endDate f) t"
  by (simp add: tradeFilter_def pairPredicate_def strategyPredicate_def
      directionPredicate_def dateRangePredicate_def Let_def)

lemma filteredTrades_default: "filteredTrades H createDefaultFilters ts = ts"
  by (simp add: filteredTrades_def tradeFilter_def createDefaultFilters_def)

lemma dateRange_parseable:
  assumes "\<not> isNaN (getTime H (date t))"
  shows "dateRangePredicate H fs fe t \<longleftrightarrow> dateRange_spec H fs fe t"
  using assms
  by (auto simp: dateRangePredicate_def dateRange_spec_def parseableBound_def
      ge_def le_def gt_def)

lemma trim_Nil: "trim [] = []"
  by (simp add: trim_def)

lemma toLowerCase_samples:
  "toLowerCase ''BTC / USDT'' = ''btc / usdt''"
  "toLowerCase ''ETH / USDT'' = ''eth / usdt''"
  "toLowerCase ''SOL / USDT'' = ''sol / usdt''"
  "toLowerCase ''btc'' = ''btc''"
  "toLowerCase ''Eth'' = ''eth''"
  by code_simp+

lemma trim_samples:
  "trim ''btc'' = ''btc''"
  "trim ''  Eth '' = ''Eth''"
  "trim ''   '' = []"
  by (simp_all add: trim_def isWhiteSpace_def)

lemma before_iff_index:
  "before xs a b \<longleftrightarrow> (\<exists>i j. i < j \<and> j < length xs \<and> xs ! i = a \<and> xs ! j = b)"
proof (induction xs)
  case Nil
  then show ?case by simp
next
  case (Cons x xs)
  show ?case
  proof
    assume "before (x # xs) a b"
    then consider "x = a" "b \<in> set xs" | "before xs a b" by auto
    then show "\<exists>i j. i < j \<and> j < length (x # xs) \<and> (x # xs) ! i = a \<and> (x # xs) ! j = b"
    proof cases
      case 1
      then obtain k where "k < length xs" "xs ! k = b" by (auto simp: in_set_conv_nth)
      with 1 have "0 < Suc k \<and> Suc k < length (x # xs) \<and> (x # xs) ! 0 = a \<and> (x # xs) ! Suc k = b"
        by simp
      then show ?thesis by blast
    next
      case 2
      with Cons.IH obtain i j where "i < j" "j < length xs" "xs ! i = a" "xs ! j = b" by blast
      then have "Suc i < Suc j \<and> Suc j < length (x # xs) \<and> (x # xs) ! Suc i = a \<and> (x # xs) ! Suc j = b"
        by simp
      then show ?thesis by blast
    qed
  next
    assume "\<exists>i j. i < j \<and> j < length (x # xs) \<and> (x # xs) ! i = a \<and> (x # xs) ! j = b"
    then obtain i j where ij: "i < j" "j < length (x # xs)" "(x # xs) ! i = a" "(x # xs) ! j = b"
      by blast
    then obtain j' where j': "j = Suc j'" by (cases j) auto
    show "before (x # xs) a b"
    proof (cases i)
      case 0
      with ij j' have "x = a" "b \<in> set xs" by auto
      then show ?thesis by simp
    next
      case (Suc i')
      with ij j' have "i' < j' \<and> j' < length xs \<and> xs ! i' = a \<and> xs ! j' = b" by auto
      with Cons.IH have "before xs a b" by blast
      then show ?thesis by simp
    qed
  qed
qed

section \<open>Claims\<close>

text \<open>
  C1. The profit/loss follows the formula of the data model, evaluated as the program
  evaluates it, in doubles: \<open>(exit - entry) * size\<close> for a long trade,
  \<open>(entry - exit) * size\<close> for a short one, each operation rounded. On a host with
  binary64 arithmetic the two examples of the specification give exactly 925 and 1600
  and every sample trade follows the formula. For every host, every payload that the
  submit handler sends to the collaborator, on create and on update, has finite prices
  and size and the profit/loss of the formula; and after a submission in the first
  version of the page every trade of the list is either an old trade left untouched or
  such a trade.
\<close>

theorem profitLoss_formula:
  "(ieeeHost H \<longrightarrow>
      calculatePnL H Long (Fin 61250) (Fin 63100) (Fin (1 / 2)) = Fin 925 \<and>
      calculatePnL H Short (Fin 3120) (Fin 3040) (Fin 20) = Fin 1600 \<and>
      (\<forall>t\<in>set (initialTrades H). tradeFollowsFormula H t)) \<and>
   (\<forall>r\<in>set (requests (snd (handleSubmit H db st))).
      payloadFollowsFormula H (requestPayload r)) \<and>
   (\<forall>t\<in>set (trades (fst (handleSubmit_inMemory H st))).
      t \<in> set (trades st) \<or> tradeFollowsFormula H t)"
  using profit_examples [of H] initialTrades_formula [of H]
    handleSubmit_requests_formula [of _ H db st] handleSubmit_inMemory_formula [of _ H st]
  by blast

theorem profitLoss_formula_witness:
  "ieeeHost sampleHost \<and>
   requests (snd (handleSubmit sampleHost failingDb
     (sampleState (sampleForm ''BTC / USDT'' ''61250'' ''63100'' ''0.5'')))) \<noteq> [] \<and>
   payloadFollowsFormula sampleHost
     \<lparr> payload_pair = ''BTC / USDT'', payload_direction = Long,
       payload_strategy = ''Trend Break'', payload_entry_price = Fin 61250,
       payload_exit_price = Fin 63100, payload_position_size = Fin (1 / 2),
       payload_pnl = Fin 925, payload_sentiment = None,
       payload_trade_date = ''2024-04-12'' \<rparr> \<and>
   tradeFollowsFormula sampleHost
     \<lparr> trade_id = ''1714521600000'', pair = ''BTC / USDT'', direction = Long,
       strategy = ''Trend Break'', entryPrice = Fin 61250, exitPrice = Fin 63100,
       pnl = Fin 925, date = ''2024-04-12'', sentiment = [],
       positionSize = Fin (1 / 2) \<rparr> \<and>
   list_all (tradeFollowsFormula sampleHost) (initialTrades sampleHost) \<and>
   map pnl (initialTrades sampleHost) = [Fin 925, Fin 1600, Fin (- 180), Fin 288] \<and>
   pnlByFormula sampleHost Long (Fin (- (2 ^ 1023))) (Fin (2 ^ 1023)) (Fin 1) PosInf"
proof -
  have new: "\<lparr> trade_id = ''1714521600000'', pair = ''BTC / USDT'', direction = Long,
       strategy = ''Trend Break'', entryPrice = Fin 61250, exitPrice = Fin 63100,
       pnl = Fin 925, date = ''2024-04-12'', sentiment = [],
       positionSize = Fin (1 / 2) \<rparr> \<notin> set (initialTrades sampleHost)"
    by (simp add: initialTrades_def)
  have over: "pnlByFormula sampleHost Long (Fin (- (2 ^ 1023))) (Fin (2 ^ 1023)) (Fin 1) PosInf"
    unfolding pnlByFormula_def overflow_sample by simp
  show ?thesis
    using profitLoss_formula [of sampleHost failingDb
        "sampleState (sampleForm ''BTC / USDT'' ''61250'' ''63100'' ''0.5'')"]
      new over ieeeHost_sampleHost initialTrades_pnl
    by (simp add: sample_submit sample_submit_inMemory trades_sampleState list_all_iff)
qed

text \<open>
  C2. The normalizer gives a trade for every row: \<^verbatim>\<open>mapRowToTrade\<close> has no
  operation that can throw, so its model is a plain function. A numeric field that is a
  number passes through unchanged; a text is read by \<^verbatim>\<open>parseFloat\<close> and kept when
  the result is a finite number; a text that gives no finite number, and an absent
  field, become \<open>0\<close>; an absent sentiment becomes the empty string and a present one
  is kept; the other fields are copied.
\<close>

theorem normalizer_coercion:
  "parseNumericField H (RawNumber v) = v \<and>
   (isFinite (parseFloat H s) \<longrightarrow> parseNumericField H (RawString s) = parseFloat H s) \<and>
   (\<not> isFinite (parseFloat H s) \<longrightarrow> parseNumericField H (RawString s) = Fin 0) \<and>
   parseNumericField H RawNull = Fin 0 \<and>
   entryPrice (mapRowToTrade H row) = parseNumericField H (entry_price row) \<and>
   exitPrice (mapRowToTrade H row) = parseNumericField H (exit_price row) \<and>
   pnl (mapRowToTrade H row) = parseNumericField H (row_pnl row) \<and>
   positionSize (mapRowToTrade H row) = parseNumericField H (position_size row) \<and>
   (row_sentiment row = None \<longrightarrow> sentiment (mapRowToTrade H row) = []) \<and>
   (\<forall>text. row_sentiment row = Some text \<longrightarrow> sentiment (mapRowToTrade H row) = text) \<and>
   trade_id (mapRowToTrade H row) = row_id row \<and>
   pair (mapRowToTrade H row) = row_pair row \<and>
   direction (mapRowToTrade H row) = row_direction row \<and>
   strategy (mapRowToTrade H row) = row_strategy row \<and>
   date (mapRowToTrade H row) = trade_date row"
  by (simp add: mapRowToTrade_def Let_def)

theorem normalizer_coercion_witness:
  "isFinite (parseFloat sampleHost ''61250'') \<and>
   \<not> isFinite (parseFloat sampleHost ''n/a'') \<and>
   row_sentiment sampleRow = None \<and>
   mapRowToTrade sampleHost sampleRow =
     \<lparr> trade_id = ''7'', pair = ''ETH / USDT'', direction = Short,
       strategy = ''Mean Revert'', entryPrice = Fin 61250, exitPrice = Fin 3040,
       pnl = Fin 0, date = ''2024-04-10'', sentiment = [], positionSize = Fin 0 \<rparr> \<and>
   sentiment (mapRowToTrade sampleHost (sampleRow\<lparr> row_sentiment := Some ''calm'' \<rparr>)) = ''calm''"
proof -
  have a: "isFinite (parseFloat sampleHost ''61250'')"
    and b: "\<not> isFinite (parseFloat sampleHost ''n/a'')"
    by (simp_all add: sampleHost_def)
  have c: "parseFloat sampleHost ''61250'' = Fin 61250" by (simp add: sampleHost_def)
  have r: "entry_price sampleRow = RawString ''61250''" "exit_price sampleRow = RawNumber (Fin 3040)"
    "row_pnl sampleRow = RawString ''n/a''" "position_size sampleRow = RawNull"
    "row_sentiment sampleRow = None"
    by (simp_all add: sampleRow_def)
  have "mapRowToTrade sampleHost sampleRow =
     \<lparr> trade_id = ''7'', pair = ''ETH / USDT'', direction = Short,
       strategy = ''Mean Revert'', entryPrice = Fin 61250, exitPrice = Fin 3040,
       pnl = Fin 0, date = ''2024-04-10'', sentiment = [], positionSize = Fin 0 \<rparr>"
    using normalizer_coercion [of sampleHost "Fin 3040" "''61250''" sampleRow]
      normalizer_coercion [of sampleHost "Fin 3040" "''n/a''" sampleRow] a b c r
    by (intro Trade.equality) (simp_all add: sampleRow_def)
  moreover have "sentiment (mapRowToTrade sampleHost (sampleRow\<lparr> row_sentiment := Some ''calm'' \<rparr>)) = ''calm''"
    using normalizer_coercion [of sampleHost "Fin 3040" "''n/a''" "sampleRow\<lparr> row_sentiment := Some ''calm'' \<rparr>"]
    by simp
  ultimately show ?thesis using a b r by simp
qed

text \<open>
  C3. The statistics of a filtered list equal their reference definitions, in the
  arithmetic of the program: the total is the length, the winners are the trades with a
  profit/loss above zero, the losers are the total less the winners, which counts every
  other trade (a profit/loss of exactly zero included); on a list that is not empty the
  win rate is \<open>round (winners / total * 100)\<close> and the average is the net profit/loss
  divided by the total; on the empty list both are \<open>0\<close>. The net profit/loss is the
  sum of the profit/loss values accumulated from zero in the order of the list. Where
  no step is rounded these are the values of real arithmetic: the net profit/loss is
  the real sum when every partial sum is a double, and the win rate is the rounded real
  percentage when the quotient and the percentage are doubles.
\<close>

theorem statistics_reference:
  "totalTrades ts = length ts \<and>
   winningTrades ts = length (filter (\<lambda>t. gt (pnl t) (Fin 0)) ts) \<and>
   losingTrades ts = int (totalTrades ts) - int (winningTrades ts) \<and>
   losingTrades ts = int (length (filter (\<lambda>t. \<not> gt (pnl t) (Fin 0)) ts)) \<and>
   (ts \<noteq> [] \<longrightarrow>
      winRate H ts = winRate_spec H (winningTrades ts) (totalTrades ts) \<and>
      avgPnl H ts = divide_num H (totalPnL H ts) (Fin (real (totalTrades ts)))) \<and>
   (ts = [] \<longrightarrow> winRate H ts = Fin 0 \<and> avgPnl H ts = Fin 0) \<and>
   totalPnL H [] = Fin 0 \<and>
   totalPnL H (ts @ [t]) = add H (totalPnL H ts) (pnl t) \<and>
   ((\<forall>t\<in>set ts. isFinite (pnl t)) \<and>
    (\<forall>k\<le>length ts. fl H (\<Sum>t\<leftarrow>take k ts. realOf (pnl t)) =
       Fin (\<Sum>t\<leftarrow>take k ts. realOf (pnl t))) \<longrightarrow>
      totalPnL H ts = Fin (\<Sum>t\<leftarrow>ts. realOf (pnl t))) \<and>
   (n \<noteq> 0 \<and> fl H (real w / real n) = Fin (real w / real n) \<and>
    fl H (real w / real n * 100) = Fin (real w / real n * 100) \<longrightarrow>
      winRate_spec H w n = Fin (of_int (round (real w / real n * 100))))"
proof -
  have "n \<noteq> 0 \<and> fl H (real w / real n) = Fin (real w / real n) \<and>
    fl H (real w / real n * 100) = Fin (real w / real n * 100) \<longrightarrow>
      winRate_spec H w n = Fin (of_int (round (real w / real n * 100)))"
    using winRate_spec_exact [of n H w] by blast
  moreover have "totalTrades ts = length ts" by (simp add: totalTrades_def)
  moreover have "winningTrades ts = length (filter (\<lambda>t. gt (pnl t) (Fin 0)) ts)"
    by (simp add: winningTrades_def)
  moreover have "losingTrades ts = int (totalTrades ts) - int (winningTrades ts)"
    by (simp add: losingTrades_def)
  moreover note losingTrades_count [of ts]
  moreover have "ts \<noteq> [] \<longrightarrow>
      winRate H ts = winRate_spec H (winningTrades ts) (totalTrades ts) \<and>
      avgPnl H ts = divide_num H (totalPnL H ts) (Fin (real (totalTrades ts)))"
    using winRate_nonempty [of ts H] avgPnl_nonempty [of ts H] by simp
  moreover have "ts = [] \<longrightarrow> winRate H ts = Fin 0 \<and> avgPnl H ts = Fin 0"
    using stats_empty [of H] by simp
  moreover note totalPnL_Nil [of H] totalPnL_snoc [of H ts t]
  moreover have "(\<forall>t\<in>set ts. isFinite (pnl t)) \<and>
    (\<forall>k\<le>length ts. fl H (\<Sum>t\<leftarrow>take k ts. realOf (pnl t)) =
       Fin (\<Sum>t\<leftarrow>take k ts. realOf (pnl t))) \<longrightarrow>
      totalPnL H ts = Fin (\<Sum>t\<leftarrow>ts. realOf (pnl t))"
    using totalPnL_exact [of ts H] by blast
  ultimately show ?thesis by blast
qed

theorem statistics_reference_witness:
  "initialTrades sampleHost \<noteq> [] \<and>
   list_all (\<lambda>t. isFinite (pnl t)) (initialTrades sampleHost) \<and>
   totalTrades (initialTrades sampleHost) = 4 \<and>
   winningTrades (initialTrades sampleHost) = 3 \<and>
   losingTrades (initialTrades sampleHost) = 1 \<and>
   winRate sampleHost (initialTrades sampleHost) = Fin 75 \<and>
   totalPnL sampleHost (initialTrades sampleHost) = Fin 2633 \<and>
   avgPnl sampleHost (initialTrades sampleHost) = Fin (2633 / 4) \<and>
   winRate sampleHost [] = Fin 0 \<and> avgPnl sampleHost [] = Fin 0"
proof -
  let ?ts = "initialTrades sampleHost"
  have ne: "?ts \<noteq> []" by (simp add: initialTrades_def)
  have len: "length ?ts = 4" by (simp add: initialTrades_def)
  have fin: "\<forall>t\<in>set ?ts. isFinite (pnl t)"
    using initialTrades_pnl by (metis (no_types, lifting) isFinite.simps(1) imageI list.set_map
        list.simps(15) insert_iff empty_iff empty_set)
  have sum: "(\<Sum>t\<leftarrow>?ts. realOf (pnl t)) = 2633"
  proof -
    have "(\<Sum>t\<leftarrow>?ts. realOf (pnl t)) = sum_list (map realOf (map pnl ?ts))"
      by (simp add: comp_def)
    then show ?thesis by (simp only: initialTrades_pnl) simp
  qed
  have win: "length (filter (\<lambda>t. gt (pnl t) (Fin 0)) ?ts) = 3"
  proof -
    have "length (filter (\<lambda>t. gt (pnl t) (Fin 0)) ?ts) =
        length (filter (\<lambda>p. gt p (Fin 0)) (map pnl ?ts))"
      by (simp add: filter_map comp_def)
    then show ?thesis by (simp only: initialTrades_pnl) (simp add: gt_def)
  qed
  have avg: "divide_num sampleHost (Fin 2633) (Fin 4) = Fin (2633 / 4)"
    using threshold_gt by (simp add: fl_sample)
  show ?thesis
    using statistics_reference [of ?ts sampleHost "hd ?ts" 4 3]
      statistics_reference [of "[]" sampleHost "hd ?ts" 4 3]
      ne len fin sum win avg sample_partial_sums winRate_sample
    by (simp add: list_all_iff)
qed

text \<open>
  C4. Filtering is conjunctive: the filtered list is the input list restricted, in its
  order, to the trades that pass the pair, strategy, direction and date-range
  predicates, each of which reads its own fields of the filter only; a trade is in the
  result exactly when it is in the input and passes all four. With an empty pair and
  strategy, direction \<open>All\<close> and no date bound the result is the input list itself.
\<close>

theorem filter_conjunctive:
  "filteredTrades H f ts =
     filter (\<lambda>t. pairPredicate (filter_pair f) t \<and> strategyPredicate (filter_strategy f) t \<and>
                 directionPredicate (filter_direction f) t \<and>
                 dateRangePredicate H (startDate f) (endDate f) t) ts \<and>
   (t \<in> set (filteredTrades H f ts) \<longleftrightarrow>
      t \<in> set ts \<and> pairPredicate (filter_pair f) t \<and>
      strategyPredicate (filter_strategy f) t \<and>
      directionPredicate (filter_direction f) t \<and>
      dateRangePredicate H (startDate f) (endDate f) t) \<and>
   (filter_pair f = [] \<and> filter_strategy f = [] \<and> filter_direction f = All \<and>
    startDate f = [] \<and> endDate f = [] \<longrightarrow> filteredTrades H f ts = ts) \<and>
   filteredTrades H createDefaultFilters ts = ts"
proof -
  have "filteredTrades H f ts =
     filter (\<lambda>t. pairPredicate (filter_pair f) t \<and> strategyPredicate (filter_strategy f) t \<and>
                 directionPredicate (filter_direction f) t \<and>
                 dateRangePredicate H (startDate f) (endDate f) t) ts"
    unfolding filteredTrades_def by (rule filter_cong) (simp_all add: tradeFilter_conj)
  moreover have "filter_pair f = [] \<and> filter_strategy f = [] \<and> filter_direction f = All \<and>
    startDate f = [] \<and> endDate f = [] \<longrightarrow> filteredTrades H f ts = ts"
    by (simp add: filteredTrades_def tradeFilter_def)
  ultimately show ?thesis using filteredTrades_default [of H ts] by auto
qed

theorem filter_conjunctive_witness:
  "filteredTrades sampleHost
     (createDefaultFilters\<lparr> filter_pair := ''btc'', startDate := ''2024-04-10'' \<rparr>)
     (initialTrades sampleHost) = [hd (initialTrades sampleHost)] \<and>
   hd (initialTrades sampleHost) \<in> set (initialTrades sampleHost) \<and>
   pairPredicate ''btc'' (hd (initialTrades sampleHost)) \<and>
   dateRangePredicate sampleHost ''2024-04-10'' [] (hd (initialTrades sampleHost)) \<and>
   filteredTrades sampleHost createDefaultFilters (initialTrades sampleHost) =
     initialTrades sampleHost"
proof -
  have f: "filter_pair (createDefaultFilters\<lparr> filter_pair := ''btc'', startDate := ''2024-04-10'' \<rparr>) = ''btc''"
    "filter_strategy (createDefaultFilters\<lparr> filter_pair := ''btc'', startDate := ''2024-04-10'' \<rparr>) = []"
    "filter_direction (createDefaultFilters\<lparr> filter_pair := ''btc'', startDate := ''2024-04-10'' \<rparr>) = All"
    "startDate (createDefaultFilters\<lparr> filter_pair := ''btc'', startDate := ''2024-04-10'' \<rparr>) = ''2024-04-10''"
    "endDate (createDefaultFilters\<lparr> filter_pair := ''btc'', startDate := ''2024-04-10'' \<rparr>) = []"
    by (simp_all add: createDefaultFilters_def)
  show ?thesis
    using filter_conjunctive [of sampleHost
        "createDefaultFilters\<lparr> filter_pair := ''btc'', startDate := ''2024-04-10'' \<rparr>"
        "initialTrades sampleHost" "hd (initialTrades sampleHost)"]
    by (simp add: f initialTrades_def pairPredicate_def strategyPredicate_def
        directionPredicate_def dateRangePredicate_def sampleHost_def toLowerCase_samples
        trim_samples gt_def)
qed

text \<open>
  C5. The pair predicate has the effect of a predicate that is active exactly when the
  trimmed filter text is not empty and then asks that the trimmed, lower-cased filter
  text occur as a contiguous run in the lower-cased pair of the trade; the strategy
  predicate is the same on the strategy. So the whole filter callback can be read with
  the trimmed texts, and pair and strategy filters of white space only exclude no trade.
\<close>

theorem text_filter_trimmed:
  "(pairPredicate fp t \<longleftrightarrow>
      (trim fp \<noteq> [] \<longrightarrow>
         includes_str (toLowerCase (pair t)) (toLowerCase (trim fp)))) \<and>
   (strategyPredicate fs t \<longleftrightarrow>
      (trim fs \<noteq> [] \<longrightarrow>
         includes_str (toLowerCase (strategy t)) (toLowerCase (trim fs)))) \<and>
   (includes_str u v \<longleftrightarrow> (\<exists>p q. u = p @ v @ q)) \<and>
   (tradeFilter H f t \<longleftrightarrow>
      (trim (filter_pair f) \<noteq> [] \<longrightarrow>
         includes_str (toLowerCase (pair t)) (toLowerCase (trim (filter_pair f)))) \<and>
      (trim (filter_strategy f) \<noteq> [] \<longrightarrow>
         includes_str (toLowerCase (strategy t)) (toLowerCase (trim (filter_strategy f)))) \<and>
      directionPredicate (filter_direction f) t \<and>
      dateRangePredicate H (startDate f) (endDate f) t) \<and>
   ((\<forall>c\<in>set (filter_pair f). isWhiteSpace c) \<and>
    (\<forall>c\<in>set (filter_strategy f). isWhiteSpace c) \<longrightarrow>
      filteredTrades H f ts =
        filteredTrades H (f\<lparr> filter_pair := [], filter_strategy := [] \<rparr>) ts)"
proof -
  have "(\<forall>c\<in>set (filter_pair f). isWhiteSpace c) \<and>
    (\<forall>c\<in>set (filter_strategy f). isWhiteSpace c) \<longrightarrow>
      filteredTrades H f ts =
        filteredTrades H (f\<lparr> filter_pair := [], filter_strategy := [] \<rparr>) ts"
  proof
    assume ws: "(\<forall>c\<in>set (filter_pair f). isWhiteSpace c) \<and>
      (\<forall>c\<in>set (filter_strategy f). isWhiteSpace c)"
    then have "trim (filter_pair f) = []" "trim (filter_strategy f) = []"
      by (simp_all add: trim_Nil_iff)
    then have "tradeFilter H f x =
        tradeFilter H (f\<lparr> filter_pair := [], filter_strategy := [] \<rparr>) x" for x
      by (simp add: tradeFilter_conj pairPredicate_trimmed strategyPredicate_trimmed trim_Nil)
    then show "filteredTrades H f ts =
        filteredTrades H (f\<lparr> filter_pair := [], filter_strategy := [] \<rparr>) ts"
      unfolding filteredTrades_def by (intro filter_cong) simp_all
  qed
  moreover have "tradeFilter H f t \<longleftrightarrow>
      (trim (filter_pair f) \<noteq> [] \<longrightarrow>
         includes_str (toLowerCase (pair t)) (toLowerCase (trim (filter_pair f)))) \<and>
      (trim (filter_strategy f) \<noteq> [] \<longrightarrow>
         includes_str (toLowerCase (strategy t)) (toLowerCase (trim (filter_strategy f)))) \<and>
      directionPredicate (filter_direction f) t \<and>
      dateRangePredicate H (startDate f) (endDate f) t"
    using pairPredicate_trimmed [of "filter_pair f" t]
      strategyPredicate_trimmed [of "filter_strategy f" t]
    by (simp add: tradeFilter_conj)
  ultimately show ?thesis
    using pairPredicate_trimmed [of fp t] strategyPredicate_trimmed [of fs t]
      includes_str_iff [of u v]
    by blast
qed

theorem text_filter_trimmed_witness:
  "trim ''  Eth '' \<noteq> [] \<and>
   pairPredicate ''  Eth '' (hd (tl (initialTrades sampleHost))) \<and>
   \<not> pairPredicate ''  Eth '' (hd (initialTrades sampleHost)) \<and>
   list_all isWhiteSpace ''   '' \<and>
   filteredTrades sampleHost (createDefaultFilters\<lparr> filter_pair := ''   '' \<rparr>)
     (initialTrades sampleHost) = initialTrades sampleHost"
proof -
  have inc: "includes_str ''eth / usdt'' ''eth''" "\<not> includes_str ''btc / usdt'' ''eth''"
    by simp_all
  have p: "pair (hd (tl (initialTrades sampleHost))) = ''ETH / USDT''" "pair (hd (initialTrades sampleHost)) = ''BTC / USDT''"
    by (simp_all add: initialTrades_def)
  have ws: "\<forall>c\<in>set ''   ''. isWhiteSpace c" by (simp add: isWhiteSpace_def)
  have d: "createDefaultFilters\<lparr> filter_pair := [], filter_strategy := [] \<rparr> =
      createDefaultFilters"
    by (simp add: createDefaultFilters_def)
  have f: "filter_pair (createDefaultFilters\<lparr> filter_pair := ''   '' \<rparr>) = ''   ''"
    "filter_strategy (createDefaultFilters\<lparr> filter_pair := ''   '' \<rparr>) = []"
    by (simp_all add: createDefaultFilters_def)
  show ?thesis
    using text_filter_trimmed [of "''  Eth ''" "hd (tl (initialTrades sampleHost))" "[]" "[]" "[]" sampleHost
        "createDefaultFilters\<lparr> filter_pair := ''   '' \<rparr>" "initialTrades sampleHost"]
      text_filter_trimmed [of "''  Eth ''" "hd (initialTrades sampleHost)" "[]" "[]" "[]" sampleHost
        "createDefaultFilters\<lparr> filter_pair := ''   '' \<rparr>" "initialTrades sampleHost"]
      ws
    by (simp add: trim_samples toLowerCase_samples inc p d f filteredTrades_default trim_Nil
        list_all_iff)
qed

text \<open>
  C6 (amended). For a trade whose date is a date (its time value is not NaN), the
  date-range predicate admits the trade exactly when its time is \<^verbatim>\<open>>=\<close> the start
  bound if that bound is present and a date, and \<^verbatim>\<open><=\<close> the end bound if that bound
  is present and a date. A bound that is not a date is ignored like an absent one, for
  every trade.
\<close>

theorem date_range_parseable_trade:
  "(\<not> isNaN (getTime H (date t)) \<longrightarrow>
      (dateRangePredicate H fs fe t \<longleftrightarrow> dateRange_spec H fs fe t) \<and>
      (tradeFilter H f t \<longleftrightarrow>
         pairPredicate (filter_pair f) t \<and> strategyPredicate (filter_strategy f) t \<and>
         directionPredicate (filter_direction f) t \<and>
         dateRange_spec H (startDate f) (endDate f) t)) \<and>
   (\<not> parseableBound H fs \<longrightarrow>
      dateRangePredicate H fs fe t = dateRangePredicate H [] fe t) \<and>
   (\<not> parseableBound H fe \<longrightarrow>
      dateRangePredicate H fs fe t = dateRangePredicate H fs [] t)"
proof -
  have "\<not> parseableBound H fs \<longrightarrow>
      dateRangePredicate H fs fe t = dateRangePredicate H [] fe t"
    by (auto simp: dateRangePredicate_def parseableBound_def)
  moreover have "\<not> parseableBound H fe \<longrightarrow>
      dateRangePredicate H fs fe t = dateRangePredicate H fs [] t"
    by (auto simp: dateRangePredicate_def parseableBound_def)
  ultimately show ?thesis
    using dateRange_parseable [of H t] by (simp add: tradeFilter_conj)
qed

theorem date_range_parseable_trade_witness:
  "\<not> isNaN (getTime sampleHost (date (sampleTrade ''1'' ''2024-04-07'' (Fin 5)))) \<and>
   parseableBound sampleHost ''2024-04-10'' \<and> \<not> parseableBound sampleHost ''next week'' \<and>
   \<not> dateRangePredicate sampleHost ''2024-04-10'' [] (sampleTrade ''1'' ''2024-04-07'' (Fin 5)) \<and>
   \<not> dateRange_spec sampleHost ''2024-04-10'' [] (sampleTrade ''1'' ''2024-04-07'' (Fin 5)) \<and>
   dateRangePredicate sampleHost ''2024-04-03'' ''2024-04-10''
     (sampleTrade ''1'' ''2024-04-07'' (Fin 5)) \<and>
   dateRange_spec sampleHost ''2024-04-03'' ''2024-04-10''
     (sampleTrade ''1'' ''2024-04-07'' (Fin 5)) \<and>
   dateRangePredicate sampleHost ''next week'' ''2024-04-10''
     (sampleTrade ''1'' ''2024-04-07'' (Fin 5))"
proof -
  have t: "\<not> isNaN (getTime sampleHost (date (sampleTrade ''1'' ''2024-04-07'' (Fin 5))))"
    by (simp add: sampleHost_def sampleTrade_def)
  have s1: "\<not> dateRange_spec sampleHost ''2024-04-10'' [] (sampleTrade ''1'' ''2024-04-07'' (Fin 5))"
    by (simp add: dateRange_spec_def parseableBound_def sampleHost_def sampleTrade_def
        ge_def le_def)
  have s2: "dateRange_spec sampleHost ''2024-04-03'' ''2024-04-10''
     (sampleTrade ''1'' ''2024-04-07'' (Fin 5))"
    by (simp add: dateRange_spec_def parseableBound_def sampleHost_def sampleTrade_def
        ge_def le_def)
  have s3: "dateRange_spec sampleHost ''next week'' ''2024-04-10''
     (sampleTrade ''1'' ''2024-04-07'' (Fin 5))"
    by (simp add: dateRange_spec_def parseableBound_def sampleHost_def sampleTrade_def
        ge_def le_def)
  have b: "parseableBound sampleHost ''2024-04-10''" "\<not> parseableBound sampleHost ''next week''"
    by (simp_all add: parseableBound_def sampleHost_def)
  have e: "dateRangePredicate sampleHost [] ''2024-04-10''
     (sampleTrade ''1'' ''2024-04-07'' (Fin 5))"
    by (simp add: dateRangePredicate_def sampleHost_def sampleTrade_def gt_def)
  show ?thesis
    using date_range_parseable_trade [of sampleHost "sampleTrade ''1'' ''2024-04-07'' (Fin 5)"
        "''2024-04-10''" "[]" createDefaultFilters]
      date_range_parseable_trade [of sampleHost "sampleTrade ''1'' ''2024-04-07'' (Fin 5)"
        "''2024-04-03''" "''2024-04-10''" createDefaultFilters]
      date_range_parseable_trade [of sampleHost "sampleTrade ''1'' ''2024-04-07'' (Fin 5)"
        "''next week''" "''2024-04-10''" createDefaultFilters]
      t s1 s2 s3 b e
    by simp
qed

text \<open>
  The claim as stated, for every trade, fails on a trade whose date text is no date:
  its time value is NaN, it is not \<^verbatim>\<open>>=\<close> the start bound, and yet both comparisons of
  the callback are false, so the trade stays in the filtered list.
\<close>

theorem date_range_unparseable_trade_counterexample:
  "isNaN (getTime sampleHost (date (sampleTrade ''1'' ''undated'' (Fin 5)))) \<and>
   parseableBound sampleHost ''2024-04-10'' \<and>
   dateRangePredicate sampleHost ''2024-04-10'' [] (sampleTrade ''1'' ''undated'' (Fin 5)) \<and>
   \<not> ge (getTime sampleHost (date (sampleTrade ''1'' ''undated'' (Fin 5))))
        (getTime sampleHost ''2024-04-10'') \<and>
   \<not> dateRange_spec sampleHost ''2024-04-10'' [] (sampleTrade ''1'' ''undated'' (Fin 5)) \<and>
   filteredTrades sampleHost (createDefaultFilters\<lparr> startDate := ''2024-04-10'' \<rparr>)
     [sampleTrade ''1'' ''undated'' (Fin 5)] = [sampleTrade ''1'' ''undated'' (Fin 5)]"
  by (simp add: dateRangePredicate_def dateRange_spec_def parseableBound_def sampleHost_def
      sampleTrade_def ge_def le_def filteredTrades_def tradeFilter_def createDefaultFilters_def)

text \<open>
  C7. In a list of trades whose profit/loss values are proper numbers (doubles or
  infinities, not NaN), on a host with binary64 arithmetic, two trades with different
  profit/loss stand in reversed order under the two sorts: one is before the other in
  the ascending list exactly when the other is before it in the descending list. In the
  ascending list that is exactly when its profit/loss is the smaller, and the two
  trades never stand in both orders. Every list the page can hold is such a list: the
  profit/loss of a trade is read by the normalizer from a row of the collaborator,
  where a number decoded from JSON is never NaN, a text is kept only when finite and
  anything else becomes zero; so the filtered list is proper after the first load and
  stays proper after every submission.
\<close>

theorem pnl_sort_reversed:
  "(ieeeHost H \<and> (\<forall>t\<in>set ts. properNumber H (pnl t)) \<and>
    a \<in> set ts \<and> b \<in> set ts \<and> pnl a \<noteq> pnl b \<longrightarrow>
      (before (sortedTrades H PnlAsc ts) a b \<longleftrightarrow> before (sortedTrades H PnlDesc ts) b a) \<and>
      (before (sortedTrades H PnlAsc ts) a b \<longleftrightarrow> lt (pnl a) (pnl b)) \<and>
      (before (sortedTrades H PnlAsc ts) a b \<longleftrightarrow> \<not> before (sortedTrades H PnlAsc ts) b a)) \<and>
   (ieeeHost H \<and> (\<forall>row\<in>set rows. jsonRow H row) \<longrightarrow>
      (\<forall>t\<in>set (filteredTrades H f (sortTradesByDateDesc H (map (mapRowToTrade H) rows))).
         properNumber H (pnl t))) \<and>
   (ieeeHost H \<and> jsonCollaborator H db \<and> (\<forall>t\<in>set (trades st). properNumber H (pnl t)) \<longrightarrow>
      (\<forall>t\<in>set (filteredTrades H f (trades (fst (handleSubmit H db st)))).
         properNumber H (pnl t)))"
proof -
  have 1: "(before (sortedTrades H PnlAsc ts) a b \<longleftrightarrow> before (sortedTrades H PnlDesc ts) b a) \<and>
      (before (sortedTrades H PnlAsc ts) a b \<longleftrightarrow> lt (pnl a) (pnl b)) \<and>
      (before (sortedTrades H PnlAsc ts) a b \<longleftrightarrow> \<not> before (sortedTrades H PnlAsc ts) b a)"
    if h: "ieeeHost H" "\<forall>t\<in>set ts. properNumber H (pnl t)" "a \<in> set ts" "b \<in> set ts"
      "pnl a \<noteq> pnl b"
  proof -
    have "before (sortedTrades H PnlAsc ts) b a \<longleftrightarrow> lt (pnl b) (pnl a)"
      using pnl_sort_reversal(2) [OF h(1,2) h(4) h(3)] h(5) by simp
    moreover have "lt (pnl a) (pnl b) \<longleftrightarrow> \<not> lt (pnl b) (pnl a)"
      using lt_total [of "pnl a" "pnl b"] lt_asym [of "pnl a" "pnl b"] h
        properNumber_not_NaN [of H]
      by blast
    ultimately show ?thesis
      using pnl_sort_reversal [OF h] by simp
  qed
  have 3: "\<forall>t\<in>set (filteredTrades H f (trades (fst (handleSubmit H db st)))). properNumber H (pnl t)"
    if "ieeeHost H" "jsonCollaborator H db" "\<forall>t\<in>set (trades st). properNumber H (pnl t)"
    using handleSubmit_proper [OF that] filteredTrades_subset [of H f] by blast
  show ?thesis
    using 1 3 loaded_trades_proper [of H rows f] by blast
qed

theorem pnl_sort_reversed_witness:
  "ieeeHost sampleHost \<and>
   list_all (\<lambda>t. properNumber sampleHost (pnl t)) (initialTrades sampleHost) \<and>
   hd (initialTrades sampleHost) \<in> set (initialTrades sampleHost) \<and>
   last (initialTrades sampleHost) \<in> set (initialTrades sampleHost) \<and>
   pnl (hd (initialTrades sampleHost)) \<noteq> pnl (last (initialTrades sampleHost)) \<and>
   before (sortedTrades sampleHost PnlAsc (initialTrades sampleHost))
     (last (initialTrades sampleHost)) (hd (initialTrades sampleHost)) \<and>
   before (sortedTrades sampleHost PnlDesc (initialTrades sampleHost))
     (hd (initialTrades sampleHost)) (last (initialTrades sampleHost)) \<and>
   lt (pnl (last (initialTrades sampleHost))) (pnl (hd (initialTrades sampleHost))) \<and>
   list_all (jsonRow sampleHost) [sampleRow] \<and>
   list_all (\<lambda>t. properNumber sampleHost (pnl t))
     (filteredTrades sampleHost createDefaultFilters
        (sortTradesByDateDesc sampleHost (map (mapRowToTrade sampleHost) [sampleRow]))) \<and>
   jsonCollaborator sampleHost failingDb"
proof -
  let ?ts = "initialTrades sampleHost"
  have n: "\<forall>t\<in>set ?ts. properNumber sampleHost (pnl t)"
    using initialTrades_proper [OF ieeeHost_sampleHost] .
  have m: "last ?ts \<in> set ?ts" "hd ?ts \<in> set ?ts"
    by (simp_all add: initialTrades_def)
  have "pnl (hd ?ts) = hd (map pnl ?ts)" "pnl (last ?ts) = last (map pnl ?ts)"
    by (simp_all add: initialTrades_def)
  then have p: "pnl (last ?ts) = Fin 288" "pnl (hd ?ts) = Fin 925"
    by (simp_all only: initialTrades_pnl) simp_all
  have d: "pnl (last ?ts) \<noteq> pnl (hd ?ts)" by (simp add: p)
  have r: "\<forall>row\<in>set [sampleRow]. jsonRow sampleHost row"
    by (simp add: jsonRow_def sampleRow_def)
  have c: "jsonCollaborator sampleHost failingDb"
    by (simp add: jsonCollaborator_def failingDb_def)
  show ?thesis
    using pnl_sort_reversed [of sampleHost ?ts "last ?ts" "hd ?ts" "[sampleRow]"
        createDefaultFilters failingDb "sampleState (sampleForm [] [] [] [])"]
      n m d r c ieeeHost_sampleHost
    by (auto simp: p list_all_iff)
qed

text \<open>
  C8. The preview is \<^verbatim>\<open>null\<close> exactly when the entry text or the exit text gives no
  finite number, or the size text gives no finite number or a number \<^verbatim>\<open><= 0\<close>. In
  every other case it is the formula of the data model on the three parsed values,
  evaluated in the arithmetic of the program. Where the normalizer turns a text that
  gives no finite number into \<open>0\<close>, the preview is \<^verbatim>\<open>null\<close>.
\<close>

theorem preview_undefined:
  "(calculatedPnL H fd = None \<longleftrightarrow>
      \<not> isFinite (parseFloat H (form_entryPrice fd)) \<or>
      \<not> isFinite (parseFloat H (form_exitPrice fd)) \<or>
      \<not> isFinite (parseFloat H (form_positionSize fd)) \<or>
      le (parseFloat H (form_positionSize fd)) (Fin 0)) \<and>
   (\<forall>v. calculatedPnL H fd = Some v \<longrightarrow>
      v = profitLoss_spec H (form_direction fd)
            (parseFloat H (form_entryPrice fd))
            (parseFloat H (form_exitPrice fd))
            (parseFloat H (form_positionSize fd))) \<and>
   (\<not> isFinite (parseFloat H (form_entryPrice fd)) \<longrightarrow>
      calculatedPnL H fd = None \<and>
      parseNumericField H (RawString (form_entryPrice fd)) = Fin 0)"
  by (auto simp: calculatedPnL_def Let_def calculatePnL_finite)

theorem preview_undefined_witness:
  "calculatedPnL sampleHost (sampleForm ''BTC / USDT'' ''61250'' ''63100'' ''0.5'') =
     Some (Fin 925) \<and>
   \<not> isFinite (parseFloat sampleHost ''soon'') \<and>
   calculatedPnL sampleHost (sampleForm ''BTC / USDT'' ''soon'' ''63100'' ''0.5'') = None \<and>
   parseNumericField sampleHost (RawString ''soon'') = Fin 0 \<and>
   le (parseFloat sampleHost ''-2'') (Fin 0) \<and>
   calculatedPnL sampleHost (sampleForm ''BTC / USDT'' ''61250'' ''63100'' ''-2'') = None"
proof -
  have p: "parseFloat sampleHost ''61250'' = Fin 61250" "parseFloat sampleHost ''63100'' = Fin 63100"
    "parseFloat sampleHost ''0.5'' = Fin (1 / 2)" "parseFloat sampleHost ''-2'' = Fin (- 2)"
    "parseFloat sampleHost ''soon'' = NaN"
    by (simp_all add: sampleHost_def)
  have f: "form_entryPrice (sampleForm a b c d) = b" "form_exitPrice (sampleForm a b c d) = c"
    "form_positionSize (sampleForm a b c d) = d" "form_direction (sampleForm a b c d) = Long"
    for a b c d
    by (simp_all add: sampleForm_def)
  have v: "profitLoss_spec sampleHost Long (Fin 61250) (Fin 63100) (Fin (1 / 2)) = Fin 925"
    using profit_examples(1) [OF ieeeHost_sampleHost] by (simp add: calculatePnL_finite)
  have some: "calculatedPnL sampleHost (sampleForm ''BTC / USDT'' ''61250'' ''63100'' ''0.5'') \<noteq> None"
    using preview_undefined [of sampleHost "sampleForm ''BTC / USDT'' ''61250'' ''63100'' ''0.5''"]
    by (simp add: p f le_Fin_0)
  show ?thesis
    using some preview_undefined [of sampleHost "sampleForm ''BTC / USDT'' ''61250'' ''63100'' ''0.5''"]
      preview_undefined [of sampleHost "sampleForm ''BTC / USDT'' ''soon'' ''63100'' ''0.5''"]
      preview_undefined [of sampleHost "sampleForm ''BTC / USDT'' ''61250'' ''63100'' ''-2''"]
    by (auto simp: p f le_Fin_0 v)
qed

text \<open>
  C9. A submission that fails validation (pair or strategy empty after trimming, entry
  or exit price not a finite number, size not a finite number above zero) is rejected:
  the state, and with it the trade collection, is returned unchanged, the only effect
  is one alert, and no request reaches the collaborator. Both versions of the handler
  behave alike.
\<close>

theorem validation_rejects:
  assumes "formInvalid H (formData st)"
  shows "fst (handleSubmit H db st) = st \<and>
         requests (snd (handleSubmit H db st)) = [] \<and>
         (\<exists>m. snd (handleSubmit H db st) = [Alert m]) \<and>
         handleSubmit_inMemory H st = (st, snd (handleSubmit H db st))"
proof -
  from handleSubmit_invalid [OF assms, of db] obtain m
    where m: "handleSubmit H db st = (st, [Alert m])" by blast
  from handleSubmit_inMemory_invalid [OF assms] obtain m'
    where m': "handleSubmit_inMemory H st = (st, [Alert m'])" by blast
  have "m' = m"
    using m m' assms unfolding handleSubmit_def handleSubmit_inMemory_def Let_def
    by (auto split: if_splits)
  with m m' show ?thesis by simp
qed

theorem validation_rejects_witness:
  "formInvalid sampleHost (sampleForm ''BTC / USDT'' ''61250'' ''63100'' ''-2'') \<and>
   handleSubmit sampleHost failingDb
     (sampleState (sampleForm ''BTC / USDT'' ''61250'' ''63100'' ''-2'')) =
     (sampleState (sampleForm ''BTC / USDT'' ''61250'' ''63100'' ''-2''),
      [Alert ''Please enter a position size greater than zero.'']) \<and>
   requests (snd (handleSubmit sampleHost failingDb
     (sampleState (sampleForm ''BTC / USDT'' ''61250'' ''63100'' ''-2'')))) = [] \<and>
   requests (snd (handleSubmit sampleHost failingDb
     (sampleState (sampleForm ''BTC / USDT'' ''61250'' ''63100'' ''0.5'')))) \<noteq> []"
proof -
  have inv: "formInvalid sampleHost
      (formData (sampleState (sampleForm ''BTC / USDT'' ''61250'' ''63100'' ''-2'')))"
    by (simp add: sampleState_def sample_invalid)
  have ev: "snd (handleSubmit sampleHost failingDb
      (sampleState (sampleForm ''BTC / USDT'' ''61250'' ''63100'' ''-2''))) =
      [Alert ''Please enter a position size greater than zero.'']"
    by (simp add: handleSubmit_def sampleHost_def sampleState_def sampleForm_def
        trim_def isWhiteSpace_def le_Fin_0)
  from validation_rejects [OF inv, of failingDb] ev show ?thesis
    by (simp add: sample_invalid sample_submit prod_eq_iff)
qed

text \<open>
  C10. \<^verbatim>\<open>calculatePnL\<close> is guarded: as soon as the entry price, the exit price or
  the size is not finite the result is exactly \<open>0\<close>. The profit/loss that a
  submission persists is this guarded result for the values persisted with it, in the
  payload sent to the collaborator and in the trade written to the in-memory list.
\<close>

theorem calculatePnL_guard:
  "(\<not> isFinite entry \<or> \<not> isFinite exit \<or> \<not> isFinite sz \<longrightarrow>
      calculatePnL H dir entry exit sz = Fin 0) \<and>
   (\<forall>r\<in>set (requests (snd (handleSubmit H db st))). payloadGuarded H (requestPayload r)) \<and>
   (\<forall>t\<in>set (trades (fst (handleSubmit_inMemory H st))).
      t \<in> set (trades st) \<or> tradeGuarded H t)"
  using calculatePnL_nonfinite [of entry exit sz H dir]
    handleSubmit_requests_guarded [of _ H db st] handleSubmit_inMemory_guarded [of _ H st]
  by blast

theorem calculatePnL_guard_witness:
  "\<not> isFinite PosInf \<and> calculatePnL sampleHost Short (Fin 3120) PosInf (Fin 20) = Fin 0 \<and>
   requests (snd (handleSubmit sampleHost failingDb
     (sampleState (sampleForm ''BTC / USDT'' ''61250'' ''63100'' ''0.5'')))) \<noteq> [] \<and>
   payloadGuarded sampleHost
     \<lparr> payload_pair = ''BTC / USDT'', payload_direction = Long,
       payload_strategy = ''Trend Break'', payload_entry_price = Fin 61250,
       payload_exit_price = Fin 63100, payload_position_size = Fin (1 / 2),
       payload_pnl = Fin 925, payload_sentiment = None,
       payload_trade_date = ''2024-04-12'' \<rparr> \<and>
   tradeGuarded sampleHost
     \<lparr> trade_id = ''1714521600000'', pair = ''BTC / USDT'', direction = Long,
       strategy = ''Trend Break'', entryPrice = Fin 61250, exitPrice = Fin 63100,
       pnl = Fin 925, date = ''2024-04-12'', sentiment = [],
       positionSize = Fin (1 / 2) \<rparr>"
proof -
  have new: "\<lparr> trade_id = ''1714521600000'', pair = ''BTC / USDT'', direction = Long,
       strategy = ''Trend Break'', entryPrice = Fin 61250, exitPrice = Fin 63100,
       pnl = Fin 925, date = ''2024-04-12'', sentiment = [],
       positionSize = Fin (1 / 2) \<rparr> \<notin> set (initialTrades sampleHost)"
    by (simp add: initialTrades_def)
  show ?thesis
    using calculatePnL_guard [of "Fin 3120" PosInf "Fin 20" sampleHost Short failingDb
        "sampleState (sampleForm ''BTC / USDT'' ''61250'' ''63100'' ''0.5'')"] new
    by (simp add: sample_submit sample_submit_inMemory trades_sampleState payloadGuarded_def
        tradeGuarded_def profit_examples [OF ieeeHost_sampleHost])
qed

end
